theory Spec2Isabelle
  imports Complex_Main "HOL-Library.AList" "HOL-Library.Sublist"
begin

section \<open>Python values\<close>

text \<open>
  The agent handles whatever \<^verbatim>\<open>response.json()\<close> and \<^verbatim>\<open>request.json\<close> decode: nothing in
  the source checks a type, so every argument and every field is a decoded JSON value.
  A dict is an association list (Python dicts keep insertion order; the first binding
  of a key is the one found). A \<open>char\<close> stands for one character of a Python string.
  A float is observed by the program only through its truth value, so a real number
  stands for it.
\<close>

datatype json =
    JNull
  | JBool bool
  | JInt int
  | JFloat real
  | JStr string
  | JArr "json list"
  | JObj "(string \<times> json) list"

text \<open>The truth value Python gives a value in \<^verbatim>\<open>if x:\<close> and \<^verbatim>\<open>not x\<close>.\<close>

fun truthy :: "json \<Rightarrow> bool" where
  "truthy JNull = False"
| "truthy (JBool b) = b"
| "truthy (JInt i) = (i \<noteq> 0)"
| "truthy (JFloat x) = (x \<noteq> 0)"
| "truthy (JStr s) = (s \<noteq> [])"
| "truthy (JArr xs) = (xs \<noteq> [])"
| "truthy (JObj kvs) = (kvs \<noteq> [])"

section \<open>Exceptions\<close>

text \<open>
  What \<^verbatim>\<open>response.json()\<close> does with a body: it decodes it, or the body is not JSON, or
  the body is JSON that the decoder of the standard library refuses: an integer of more
  digits than the interpreter converts (4300 by default), or nesting deeper than the
  recursion limit.
\<close>

datatype decoding =
    Decoded json
  | NotJSON
  | DigitLimit
  | DepthLimit

text \<open>
  A response as far as the agent reads it: the status code, the body as text
  (\<^verbatim>\<open>response.text\<close>, here \<open>resp_text\<close>) and what decoding the body gives.
\<close>

record response =
  status_code :: nat
  resp_text :: string
  json_body :: decoding

text \<open>
  The exceptions the two source files can meet. \<open>RequestException\<close> stands for the whole
  class \<^verbatim>\<open>requests.exceptions.RequestException\<close>; it carries \<^verbatim>\<open>str(e)\<close> and \<^verbatim>\<open>e.response\<close>.
  \<open>ValueError\<close> stands for a \<^verbatim>\<open>ValueError\<close> that is neither a \<^verbatim>\<open>JSONDecodeError\<close> nor a
  \<^verbatim>\<open>UnicodeEncodeError\<close>. All are subclasses of \<^verbatim>\<open>Exception\<close>; none but the first is a
  \<^verbatim>\<open>RequestException\<close>.
\<close>

datatype py_exn =
    RequestException string "response option"
  | TypeError
  | AttributeError
  | KeyError
  | ValueError
  | RecursionError
  | UnicodeEncodeError

section \<open>Built-in operations of Python the source uses\<close>

text \<open>\<^verbatim>\<open>d.get(k, default)\<close> on a dict.\<close>

definition dict_get :: "(string \<times> json) list \<Rightarrow> string \<Rightarrow> json \<Rightarrow> json" where
  "dict_get kvs k d = (case map_of kvs k of Some v \<Rightarrow> v | None \<Rightarrow> d)"

text \<open>
  \<^verbatim>\<open>x.get(k, default)\<close> on any value: only a dict has the attribute \<^verbatim>\<open>get\<close>.
\<close>

fun py_get :: "json \<Rightarrow> string \<Rightarrow> json \<Rightarrow> py_exn + json" where
  "py_get (JObj kvs) k d = Inr (dict_get kvs k d)"
| "py_get v k d = Inl AttributeError"

text \<open>
  \<^verbatim>\<open>k in x\<close> for a string \<open>k\<close>: a key of a dict, an element of a list, a substring of a
  string; \<^verbatim>\<open>None\<close>, numbers and booleans are not iterable and raise \<^verbatim>\<open>TypeError\<close>.
\<close>

fun py_in :: "string \<Rightarrow> json \<Rightarrow> py_exn + bool" where
  "py_in k (JObj kvs) = Inr (map_of kvs k \<noteq> None)"
| "py_in k (JArr xs) = Inr (JStr k \<in> set xs)"
| "py_in k (JStr s) = Inr (sublist k s)"
| "py_in k v = Inl TypeError"

text \<open>
  The items \<^verbatim>\<open>for x in v[:3]\<close> visits: the first three elements of a list, the first
  three characters of a string. A dict cannot be sliced and a number or boolean cannot
  be subscripted (\<^verbatim>\<open>TypeError\<close>; for a dict, Python 3.12 raises \<^verbatim>\<open>KeyError\<close> in its place,
  which propagates the same way).
\<close>

fun py_slice3 :: "json \<Rightarrow> py_exn + json list" where
  "py_slice3 (JArr xs) = Inr (take 3 xs)"
| "py_slice3 (JStr s) = Inr (map (\<lambda>c. JStr [c]) (take 3 s))"
| "py_slice3 v = Inl TypeError"

text \<open>
  \<^verbatim>\<open>str.lower()\<close> as far as a lookup in an ASCII table can tell: the letters A to Z
  become a to z. (Python also lowers letters beyond ASCII; none of them becomes a
  string of the table below.)
\<close>

definition lower_char :: "char \<Rightarrow> char" where
  "lower_char c =
     (if (of_char (CHR ''A'') :: nat) \<le> of_char c \<and> (of_char c :: nat) \<le> of_char (CHR ''Z'')
      then char_of (of_char c + (32::nat)) else c)"

fun py_lower :: "json \<Rightarrow> py_exn + string" where
  "py_lower (JStr s) = Inr (map lower_char s)"
| "py_lower v = Inl AttributeError"

section \<open>The jurisdiction table\<close>

text \<open>\<^verbatim>\<open>state_codes\<close>, lines 142 to 148 of \<^verbatim>\<open>opencorporates-agent.py\<close>.\<close>

definition state_codes :: "(string \<times> string) list" where
  "state_codes =
     [(''california'', ''us_ca''),
      (''ca'', ''us_ca''),
      (''illinois'', ''us_il''),
      (''il'', ''us_il'')]"

text \<open>
  Lines 139 to 149: the code the hint resolves to. \<^verbatim>\<open>jurisdiction_hint.lower()\<close> is
  outside every \<^verbatim>\<open>try\<close>, so its \<^verbatim>\<open>AttributeError\<close> on a true value that is not a string
  leaves the function.
\<close>

definition jurisdiction_code :: "json \<Rightarrow> py_exn + string option" where
  "jurisdiction_code jurisdiction_hint =
     (if truthy jurisdiction_hint then
        (case py_lower jurisdiction_hint of
           Inl e \<Rightarrow> Inl e
         | Inr l \<Rightarrow> Inr (map_of state_codes l))
      else Inr None)"

section \<open>The registry and the process\<close>

type_synonym params = "(string \<times> json) list"

text \<open>
  What is outside the repository is a parameter of the model.
  \<^item> \<open>requests_get\<close> is \<^verbatim>\<open>requests.get(url, params=params)\<close>: given the calls made so far,
    the URL and the query parameters, the registry answers with a response, or the call
    raises: a \<^verbatim>\<open>RequestException\<close> (connection error, timeout, \<dots>), or an exception of
    another class, such as the \<^verbatim>\<open>UnicodeEncodeError\<close> of encoding a parameter that holds a
    lone surrogate.
  \<^item> \<open>http_error_str\<close> and \<open>json_error_str\<close> are \<^verbatim>\<open>str(e)\<close> for the \<^verbatim>\<open>HTTPError\<close> of
    \<^verbatim>\<open>raise_for_status\<close> and for the \<^verbatim>\<open>JSONDecodeError\<close> of \<^verbatim>\<open>response.json\<close>.
  \<^item> \<open>py_str\<close> is Python's formatting of a value that is not a string inside an f-string.
\<close>

record env =
  requests_get :: "(string \<times> params) list \<Rightarrow> string \<Rightarrow> params \<Rightarrow> py_exn + response"
  http_error_str :: "response \<Rightarrow> string"
  json_error_str :: "response \<Rightarrow> string"
  py_str :: "json \<Rightarrow> string"

text \<open>
  \<^verbatim>\<open>response.raise_for_status()\<close> raises \<^verbatim>\<open>HTTPError\<close>, with the response attached, for a
  status from 400 to 599 and for no other. \<^verbatim>\<open>response.json()\<close> raises
  \<^verbatim>\<open>requests.exceptions.JSONDecodeError\<close>, with no response attached, when the body is not
  JSON; both are subclasses of \<^verbatim>\<open>RequestException\<close> (the second since requests 2.27).
  It wraps no other exception of the decoder: the \<^verbatim>\<open>ValueError\<close> of an integer over the
  digit limit and the \<^verbatim>\<open>RecursionError\<close> of deep nesting pass through as they are.
\<close>

definition raise_for_status :: "env \<Rightarrow> response \<Rightarrow> py_exn + unit" where
  "raise_for_status w r =
     (if 400 \<le> status_code r \<and> status_code r < 600
      then Inl (RequestException (http_error_str w r) (Some r))
      else Inr ())"

definition response_json :: "env \<Rightarrow> response \<Rightarrow> py_exn + json" where
  "response_json w r =
     (case json_body r of
        Decoded j \<Rightarrow> Inr j
      | NotJSON \<Rightarrow> Inl (RequestException (json_error_str w r) None)
      | DigitLimit \<Rightarrow> Inl ValueError
      | DepthLimit \<Rightarrow> Inl RecursionError)"

text \<open>A value inside an f-string: a string stands for itself.\<close>

definition format_value :: "env \<Rightarrow> json \<Rightarrow> string" where
  "format_value w v = (case v of JStr s \<Rightarrow> s | _ \<Rightarrow> py_str w v)"

text \<open>A natural number inside an f-string, in decimal.\<close>

fun str_nat :: "nat \<Rightarrow> string" where
  "str_nat n =
     (if n < 10 then [char_of (48 + n)]
      else str_nat (n div 10) @ [char_of (48 + n mod 10)])"

declare str_nat.simps [simp del]

text \<open>What \<^verbatim>\<open>print\<close> wrote: one constructor for each \<^verbatim>\<open>print\<close> of the agent's methods.\<close>

datatype print_line =
    ErrorMakingRequest string
  | ResponseContent string
  | ErrorProcessingCompany py_exn

text \<open>
  The effects of a call: the calls of \<^verbatim>\<open>requests.get\<close>, in order, and the lines printed.
\<close>

record io =
  sent :: "(string \<times> params) list"
  printed :: "print_line list"

text \<open>The fields of \<^verbatim>\<open>self\<close> after \<^verbatim>\<open>__init__\<close>.\<close>

record agent =
  base_url :: string
  api_token :: "string option"

section \<open>\<^verbatim>\<open>OpenCorporatesAgent._make_request\<close>\<close>

text \<open>
  Lines 48 to 50, the body of the \<^verbatim>\<open>try\<close>: what it returns or raises.
\<close>

definition try_request :: "env \<Rightarrow> (string \<times> params) list \<Rightarrow> string \<Rightarrow> params \<Rightarrow> py_exn + json" where
  "try_request w history url ps =
     (case requests_get w history url ps of
        Inl e \<Rightarrow> Inl e
      | Inr r \<Rightarrow>
          (case raise_for_status w r of
             Inl e \<Rightarrow> Inl e
           | Inr u \<Rightarrow> response_json w r))"

text \<open>Lines 42 and 43: the token joins the parameters when there is a non-empty one.\<close>

definition with_token :: "agent \<Rightarrow> params \<Rightarrow> params" where
  "with_token self ps =
     (case api_token self of
        None \<Rightarrow> ps
      | Some t \<Rightarrow> if t \<noteq> [] then AList.update ''api_token'' (JStr t) ps else ps)"

text \<open>
  Lines 39 to 55. The handler catches \<^verbatim>\<open>RequestException\<close> only; any other exception
  leaves the method.
\<close>

definition make_request :: "env \<Rightarrow> agent \<Rightarrow> string \<Rightarrow> params option \<Rightarrow> io \<Rightarrow> (py_exn + json) \<times> io" where
  "make_request w self endpoint params s =
     (let params1 = with_token self (case params of None \<Rightarrow> [] | Some p \<Rightarrow> p);
          url = base_url self @ ''/'' @ endpoint;
          s1 = s\<lparr>sent := sent s @ [(url, params1)]\<rparr>
      in case try_request w (sent s) url params1 of
           Inr j \<Rightarrow> (Inr j, s1)
         | Inl (RequestException msg resp) \<Rightarrow>
             (Inr (JObj [(''error'', JStr msg)]),
              s1\<lparr>printed := printed s1 @ [ErrorMakingRequest msg] @
                     (case resp of None \<Rightarrow> [] | Some r \<Rightarrow> [ResponseContent (resp_text r)])\<rparr>)
         | Inl e \<Rightarrow> (Inl e, s1))"

section \<open>\<^verbatim>\<open>search_companies\<close> and \<^verbatim>\<open>get_company_officers\<close>\<close>

text \<open>
  Lines 74 to 80 and 118 to 124, the same in both methods up to the key: the test
  \<^verbatim>\<open>"error" in response\<close> is outside the \<^verbatim>\<open>try\<close>, the two \<^verbatim>\<open>get\<close> calls are inside, and the
  handler catches \<^verbatim>\<open>KeyError\<close> and \<^verbatim>\<open>AttributeError\<close>.
\<close>

definition results_field :: "string \<Rightarrow> json \<Rightarrow> py_exn + json" where
  "results_field key response =
     (case py_in ''error'' response of
        Inl e \<Rightarrow> Inl e
      | Inr True \<Rightarrow> Inr (JArr [])
      | Inr False \<Rightarrow>
          (case (case py_get response ''results'' (JObj []) of
                   Inl e \<Rightarrow> Inl e
                 | Inr r \<Rightarrow> py_get r key (JArr [])) of
             Inr v \<Rightarrow> Inr v
           | Inl e \<Rightarrow> if e = KeyError \<or> e = AttributeError then Inr (JArr []) else Inl e))"

text \<open>Lines 68 to 70.\<close>

definition search_params :: "json \<Rightarrow> string option \<Rightarrow> params" where
  "search_params query code =
     [(''q'', query)] @
     (case code of
        None \<Rightarrow> []
      | Some c \<Rightarrow> if c \<noteq> [] then [(''jurisdiction_code'', JStr c)] else [])"

text \<open>Lines 72 to 80.\<close>

definition search_companies :: "env \<Rightarrow> agent \<Rightarrow> json \<Rightarrow> string option \<Rightarrow> io \<Rightarrow> (py_exn + json) \<times> io" where
  "search_companies w self query code s =
     (case make_request w self ''companies/search'' (Some (search_params query code)) s of
        (Inl e, s1) \<Rightarrow> (Inl e, s1)
      | (Inr response, s1) \<Rightarrow> (results_field ''companies'' response, s1))"

text \<open>Lines 115 to 124.\<close>

definition officers_endpoint :: "env \<Rightarrow> json \<Rightarrow> json \<Rightarrow> string" where
  "officers_endpoint w jur num =
     ''companies/'' @ format_value w jur @ ''/'' @ format_value w num @ ''/officers''"

definition get_company_officers :: "env \<Rightarrow> agent \<Rightarrow> json \<Rightarrow> json \<Rightarrow> io \<Rightarrow> (py_exn + json) \<times> io" where
  "get_company_officers w self jur num s =
     (case make_request w self (officers_endpoint w jur num) None s of
        (Inl e, s1) \<Rightarrow> (Inl e, s1)
      | (Inr response, s1) \<Rightarrow> (results_field ''officers'' response, s1))"

section \<open>\<^verbatim>\<open>find_company_controllers\<close>\<close>

text \<open>The dict appended to \<^verbatim>\<open>results\<close> (lines 175 to 183) and the dict returned.\<close>

record entry =
  company_name :: json
  jurisdiction :: json
  company_number :: json
  incorporation_date :: json
  company_type :: json
  current_status :: json
  officers :: json

record lookup_result =
  status :: string
  message :: string
  results :: "entry list"

text \<open>
  Lines 166 to 183, the body of the \<^verbatim>\<open>try\<close> for one candidate: it raises, or it appends
  nothing (\<open>None\<close>), or it appends one entry. \<open>jur\<close> and \<open>num\<close> are the locals
  \<^verbatim>\<open>jurisdiction\<close> and \<^verbatim>\<open>company_number\<close>.
\<close>

definition process_company :: "env \<Rightarrow> agent \<Rightarrow> json \<Rightarrow> io \<Rightarrow> (py_exn + entry option) \<times> io" where
  "process_company w self company_data s =
     (case py_get company_data ''company'' (JObj []) of
        Inl e \<Rightarrow> (Inl e, s)
      | Inr (JObj company) \<Rightarrow>
          (let jur = dict_get company ''jurisdiction_code'' JNull;
               num = dict_get company ''company_number'' JNull
           in if truthy jur \<and> truthy num then
                (case get_company_officers w self jur num s of
                   (Inl e, s1) \<Rightarrow> (Inl e, s1)
                 | (Inr offs, s1) \<Rightarrow>
                     (Inr (Some \<lparr>company_name = dict_get company ''name'' JNull,
                                 jurisdiction = jur,
                                 company_number = num,
                                 incorporation_date = dict_get company ''incorporation_date'' JNull,
                                 company_type = dict_get company ''company_type'' JNull,
                                 current_status = dict_get company ''current_status'' JNull,
                                 officers = offs\<rparr>), s1))
              else (Inr None, s))
      | Inr v \<Rightarrow> (Inl AttributeError, s))"

text \<open>
  A candidate that can be resolved: a dict whose \<^verbatim>\<open>company\<close> is a dict with a true
  \<^verbatim>\<open>jurisdiction_code\<close> and a true \<^verbatim>\<open>company_number\<close>. Every other candidate has a field
  missing or is malformed.
\<close>

definition has_ids :: "json \<Rightarrow> bool" where
  "has_ids company_data =
     (case py_get company_data ''company'' (JObj []) of
        Inr (JObj company) \<Rightarrow>
          truthy (dict_get company ''jurisdiction_code'' JNull) \<and>
          truthy (dict_get company ''company_number'' JNull)
      | _ \<Rightarrow> False)"

text \<open>\<^verbatim>\<open>isinstance(e, Exception)\<close>: what \<^verbatim>\<open>except Exception\<close> catches.\<close>

fun is_Exception :: "py_exn \<Rightarrow> bool" where
  "is_Exception (RequestException m r) = True"
| "is_Exception TypeError = True"
| "is_Exception AttributeError = True"
| "is_Exception KeyError = True"
| "is_Exception ValueError = True"
| "is_Exception RecursionError = True"
| "is_Exception UnicodeEncodeError = True"

text \<open>
  Lines 164 to 185, the loop: the handler prints the exception it catches and the loop
  goes on to the next candidate; an exception it does not catch leaves the loop.
\<close>

fun process_companies :: "env \<Rightarrow> agent \<Rightarrow> json list \<Rightarrow> entry list \<Rightarrow> io \<Rightarrow> (py_exn + entry list) \<times> io" where
  "process_companies w self [] acc s = (Inr acc, s)"
| "process_companies w self (c # cs) acc s =
     (case process_company w self c s of
        (Inr (Some e), s1) \<Rightarrow> process_companies w self cs (acc @ [e]) s1
      | (Inr None, s1) \<Rightarrow> process_companies w self cs acc s1
      | (Inl x, s1) \<Rightarrow>
          if is_Exception x then
            process_companies w self cs acc (s1\<lparr>printed := printed s1 @ [ErrorProcessingCompany x]\<rparr>)
          else (Inl x, s1))"

text \<open>Lines 139 to 191.\<close>

definition find_company_controllers :: "env \<Rightarrow> agent \<Rightarrow> json \<Rightarrow> json \<Rightarrow> io \<Rightarrow> (py_exn + lookup_result) \<times> io" where
  "find_company_controllers w self name jurisdiction_hint s =
     (case jurisdiction_code jurisdiction_hint of
        Inl e \<Rightarrow> (Inl e, s)
      | Inr code \<Rightarrow>
          (case search_companies w self name code s of
             (Inl e, s1) \<Rightarrow> (Inl e, s1)
           | (Inr companies, s1) \<Rightarrow>
               if \<not> truthy companies then
                 (Inr \<lparr>status = ''not_found'',
                       message = ''No companies found matching '' @ [CHR 0x27] @ format_value w name @ [CHR 0x27],
                       results = []\<rparr>, s1)
               else
                 (case py_slice3 companies of
                    Inl e \<Rightarrow> (Inl e, s1)
                  | Inr top3 \<Rightarrow>
                      (case process_companies w self top3 [] s1 of
                         (Inl e, s2) \<Rightarrow> (Inl e, s2)
                       | (Inr rs, s2) \<Rightarrow>
                           (Inr \<lparr>status = (if rs \<noteq> [] then ''success'' else ''partial_results''),
                                 message = ''Found '' @ str_nat (length rs) @ '' potential matches for '' @
                                           [CHR 0x27] @ format_value w name @ [CHR 0x27],
                                 results = rs\<rparr>, s2)))))"

section \<open>\<^verbatim>\<open>search_company\<close>, the view of \<^verbatim>\<open>POST /api/search\<close>\<close>

text \<open>\<^verbatim>\<open>jsonify\<close> of the result: the dict as a JSON object.\<close>

definition entry_json :: "entry \<Rightarrow> json" where
  "entry_json e =
     JObj [(''company_name'', company_name e),
           (''jurisdiction'', jurisdiction e),
           (''company_number'', company_number e),
           (''incorporation_date'', incorporation_date e),
           (''company_type'', company_type e),
           (''current_status'', current_status e),
           (''officers'', officers e)]"

definition jsonify :: "lookup_result \<Rightarrow> json" where
  "jsonify r =
     JObj [(''status'', JStr (status r)),
           (''message'', JStr (message r)),
           (''results'', JArr (map entry_json (results r)))]"

text \<open>
  Lines 23 to 31 of \<^verbatim>\<open>webapp-integration.py\<close>; \<open>data\<close> is \<^verbatim>\<open>request.json\<close>, the decoded body.
  The view returns a status code and a body, or raises (the framework then answers
  500).
\<close>

definition search_company :: "env \<Rightarrow> agent \<Rightarrow> json \<Rightarrow> io \<Rightarrow> (py_exn + nat \<times> json) \<times> io" where
  "search_company w self data s =
     (case py_get data ''company_name'' JNull of
        Inl e \<Rightarrow> (Inl e, s)
      | Inr name \<Rightarrow>
          (case py_get data ''jurisdiction'' JNull of
             Inl e \<Rightarrow> (Inl e, s)
           | Inr hint \<Rightarrow>
               if \<not> truthy name then
                 (Inr (400, JObj [(''error'', JStr ''Company name is required'')]), s)
               else
                 (case find_company_controllers w self name hint s of
                    (Inl e, s1) \<Rightarrow> (Inl e, s1)
                  | (Inr r, s1) \<Rightarrow> (Inr (200, jsonify r), s1))))"

section \<open>Sample registries\<close>

text \<open>
  Inputs at which the theorems below are instantiated: an agent without a token, a
  process that has done nothing yet, and registries that answer a search request with
  one reply and every other request with another.
\<close>

definition agent0 :: agent where
  "agent0 = \<lparr>base_url = ''https://api.opencorporates.com/v0.4'', api_token = None\<rparr>"

definition io0 :: io where
  "io0 = \<lparr>sent = [], printed = []\<rparr>"

definition registry :: "py_exn + response \<Rightarrow> py_exn + response \<Rightarrow> env" where
  "registry search_reply other_reply =
     \<lparr>requests_get = (\<lambda>history url ps.
          if url = ''https://api.opencorporates.com/v0.4/companies/search'' then search_reply
          else other_reply),
      http_error_str = (\<lambda>r. ''HTTP Error''),
      json_error_str = (\<lambda>r. ''Expecting value''),
      py_str = (\<lambda>v. ''?'')\<rparr>"

definition reply :: "nat \<Rightarrow> json \<Rightarrow> py_exn + response" where
  "reply code j = Inr \<lparr>status_code = code, resp_text = [], json_body = Decoded j\<rparr>"

definition hit :: "string \<Rightarrow> string \<Rightarrow> string \<Rightarrow> json" where
  "hit n j c =
     JObj [(''company'', JObj [(''name'', JStr n), (''jurisdiction_code'', JStr j),
                               (''company_number'', JStr c)])]"

definition hits :: "json list \<Rightarrow> json" where
  "hits cs = JObj [(''results'', JObj [(''companies'', JArr cs)])]"

definition no_officers :: json where
  "no_officers = JObj [(''results'', JObj [(''officers'', JArr [])])]"

definition incomplete :: json where
  "incomplete = JObj [(''company'', JObj [(''name'', JStr ''C''), (''company_number'', JStr ''7'')])]"

definition registry_five :: env where
  "registry_five =
     registry (reply 200 (hits [hit ''A'' ''us_ca'' ''1'', hit ''B'' ''us_ca'' ''2'', hit ''C'' ''us_ca'' ''3'',
                                hit ''D'' ''us_ca'' ''4'', hit ''E'' ''us_ca'' ''5'']))
              (reply 200 no_officers)"

definition registry_mixed :: env where
  "registry_mixed =
     registry (reply 200 (hits [hit ''A'' ''us_ca'' ''1'', JNull, incomplete, hit ''B'' ''us_il'' ''2'']))
              (reply 200 no_officers)"

definition registry_incomplete :: env where
  "registry_incomplete = registry (reply 200 (hits [incomplete])) (reply 200 no_officers)"

definition registry_empty :: env where
  "registry_empty = registry (reply 200 (hits [])) (reply 200 no_officers)"

definition registry_down :: env where
  "registry_down =
     registry (Inl (RequestException ''Connection refused'' None))
              (Inl (RequestException ''Connection refused'' None))"









section \<open>The request layer\<close>

lemma make_request_sent:
  "sent (snd (make_request w self endpoint params s)) =
     sent s @ [(base_url self @ ''/'' @ endpoint,
                with_token self (case params of None \<Rightarrow> [] | Some p \<Rightarrow> p))]"
  unfolding make_request_def Let_def
  by (auto split: sum.splits py_exn.splits)




lemma make_request_decoded:
  assumes "requests_get w (sent s) (base_url self @ ''/'' @ endpoint)
             (with_token self (case params of None \<Rightarrow> [] | Some p \<Rightarrow> p)) = Inr r"
      and "status_code r < 400 \<or> 600 \<le> status_code r" and "json_body r = Decoded j"
  shows "make_request w self endpoint params s =
           (Inr j, s\<lparr>sent := sent s @ [(base_url self @ ''/'' @ endpoint,
                     with_token self (case params of None \<Rightarrow> [] | Some p \<Rightarrow> p))]\<rparr>)"
  using assms
  by (auto simp: make_request_def Let_def try_request_def raise_for_status_def response_json_def)

lemma results_field_error:
  "results_field key (JObj [(''error'', v)]) = Inr (JArr [])"
  by (simp add: results_field_def)

lemma results_field_dict:
  "\<not> isl (results_field key (JObj kvs))"
  by (cases "dict_get kvs ''results'' (JObj [])")
     (auto simp: results_field_def split: bool.splits)


lemma registry_officers_return:
  assumes "c1 < 400" and "c2 < 400"
  shows "\<not> isl (fst (get_company_officers (registry (reply c1 (JObj kv1)) (reply c2 (JObj kv2))) self jur num t))"
proof -
  let ?w = "registry (reply c1 (JObj kv1)) (reply c2 (JObj kv2))"
  let ?url = "base_url self @ ''/'' @ officers_endpoint ?w jur num"
  let ?t = "t\<lparr>sent := sent t @ [(?url, with_token self (case None of None \<Rightarrow> [] | Some p \<Rightarrow> p))]\<rparr>"
  show ?thesis
  proof (cases "?url = ''https://api.opencorporates.com/v0.4/companies/search''")
    case True
    then have "requests_get ?w (sent t) ?url (with_token self (case None of None \<Rightarrow> [] | Some p \<Rightarrow> p)) =
                 Inr \<lparr>status_code = c1, resp_text = [], json_body = Decoded (JObj kv1)\<rparr>"
      by (simp add: registry_def reply_def)
    from make_request_decoded [OF this] assms(1)
    have "make_request ?w self (officers_endpoint ?w jur num) None t = (Inr (JObj kv1), ?t)"
      by simp
    then show ?thesis
      using results_field_dict [of "''officers''" kv1] by (simp add: get_company_officers_def)
  next
    case False
    then have "requests_get ?w (sent t) ?url (with_token self (case None of None \<Rightarrow> [] | Some p \<Rightarrow> p)) =
                 Inr \<lparr>status_code = c2, resp_text = [], json_body = Decoded (JObj kv2)\<rparr>"
      by (simp add: registry_def reply_def)
    from make_request_decoded [OF this] assms(2)
    have "make_request ?w self (officers_endpoint ?w jur num) None t = (Inr (JObj kv2), ?t)"
      by simp
    then show ?thesis
      using results_field_dict [of "''officers''" kv2] by (simp add: get_company_officers_def)
  qed
qed

section \<open>The per-candidate loop\<close>

lemma is_Exception_all: "is_Exception x"
  by (cases x) simp_all

lemma process_company_entry:
  assumes "process_company w self c s = (Inr (Some e), s1)"
  shows "truthy (jurisdiction e) \<and> truthy (company_number e)"
proof (cases "py_get c ''company'' (JObj [])")
  case (Inl x)
  with assms show ?thesis by (simp add: process_company_def)
next
  case (Inr v)
  show ?thesis
  proof (cases v)
    case (JObj company)
    show ?thesis
    proof (cases "truthy (dict_get company ''jurisdiction_code'' JNull) \<and>
                  truthy (dict_get company ''company_number'' JNull)")
      case True
      obtain res s2 where g: "get_company_officers w self (dict_get company ''jurisdiction_code'' JNull)
                  (dict_get company ''company_number'' JNull) s = (res, s2)"
        by (cases "get_company_officers w self (dict_get company ''jurisdiction_code'' JNull)
                  (dict_get company ''company_number'' JNull) s")
      from assms Inr JObj True g show ?thesis
        by (cases res) (auto simp: process_company_def Let_def)
    next
      case False
      with assms Inr JObj show ?thesis
        by (auto simp: process_company_def Let_def)
    qed
  qed (use assms Inr in \<open>simp_all add: process_company_def\<close>)
qed

lemma process_companies_step:
  obtains (raised) x s1 where
      "process_company w self c s = (Inl x, s1)"
      "process_companies w self (c # cs) acc s =
         process_companies w self cs acc (s1\<lparr>printed := printed s1 @ [ErrorProcessingCompany x]\<rparr>)"
  | (skipped) s1 where
      "process_company w self c s = (Inr None, s1)"
      "process_companies w self (c # cs) acc s = process_companies w self cs acc s1"
  | (appended) e s1 where
      "process_company w self c s = (Inr (Some e), s1)"
      "process_companies w self (c # cs) acc s = process_companies w self cs (acc @ [e]) s1"
proof (cases "process_company w self c s")
  case (Pair res s1)
  show ?thesis
  proof (cases res)
    case (Inl x)
    with Pair raised [of x s1] show ?thesis by (simp add: is_Exception_all)
  next
    case (Inr opt)
    with Pair skipped [of s1] appended [of _ s1] show ?thesis by (cases opt) simp_all
  qed
qed

lemma process_companies_returns:
  "\<exists>rs s1. process_companies w self cs acc s = (Inr rs, s1)"
proof (induction cs arbitrary: acc s)
  case Nil
  show ?case by simp
next
  case (Cons c cs)
  show ?case
    by (rule process_companies_step [of w self c s cs acc]) (simp_all add: Cons.IH)
qed

lemma process_companies_length:
  "process_companies w self cs acc s = (Inr rs, s1) \<Longrightarrow> length rs \<le> length acc + length cs"
proof (induction cs arbitrary: acc s)
  case Nil
  then show ?case by simp
next
  case (Cons c cs)
  show ?case
  proof (rule process_companies_step [of w self c s cs acc])
    fix x s2
    assume "process_companies w self (c # cs) acc s =
            process_companies w self cs acc (s2\<lparr>printed := printed s2 @ [ErrorProcessingCompany x]\<rparr>)"
    with Cons.prems Cons.IH [of acc] show ?thesis by fastforce
  next
    fix s2
    assume "process_companies w self (c # cs) acc s = process_companies w self cs acc s2"
    with Cons.prems Cons.IH [of acc s2] show ?thesis by simp
  next
    fix e s2
    assume "process_companies w self (c # cs) acc s = process_companies w self cs (acc @ [e]) s2"
    with Cons.prems Cons.IH [of "acc @ [e]" s2] show ?thesis by simp
  qed
qed

lemma process_companies_prefix:
  "process_companies w self cs acc s = (Inr rs, s1) \<Longrightarrow> prefix acc rs"
proof (induction cs arbitrary: acc s)
  case Nil
  then show ?case by simp
next
  case (Cons c cs)
  show ?case
  proof (rule process_companies_step [of w self c s cs acc])
    fix x s2
    assume "process_companies w self (c # cs) acc s =
            process_companies w self cs acc (s2\<lparr>printed := printed s2 @ [ErrorProcessingCompany x]\<rparr>)"
    with Cons.prems Cons.IH [of acc] show ?thesis by fastforce
  next
    fix s2
    assume "process_companies w self (c # cs) acc s = process_companies w self cs acc s2"
    with Cons.prems Cons.IH [of acc s2] show ?thesis by simp
  next
    fix e s2
    assume "process_companies w self (c # cs) acc s = process_companies w self cs (acc @ [e]) s2"
    with Cons.prems Cons.IH [of "acc @ [e]" s2] show ?thesis by (auto dest: append_prefixD)
  qed
qed

lemma process_companies_entries:
  "process_companies w self cs acc s = (Inr rs, s1) \<Longrightarrow>
   \<forall>e \<in> set acc. truthy (jurisdiction e) \<and> truthy (company_number e) \<Longrightarrow>
   \<forall>e \<in> set rs. truthy (jurisdiction e) \<and> truthy (company_number e)"
proof (induction cs arbitrary: acc s)
  case Nil
  then show ?case by simp
next
  case (Cons c cs)
  show ?case
  proof (rule process_companies_step [of w self c s cs acc])
    fix x s2
    assume "process_companies w self (c # cs) acc s =
            process_companies w self cs acc (s2\<lparr>printed := printed s2 @ [ErrorProcessingCompany x]\<rparr>)"
    with Cons.prems Cons.IH [of acc] show ?thesis by fastforce
  next
    fix s2
    assume "process_companies w self (c # cs) acc s = process_companies w self cs acc s2"
    with Cons.prems Cons.IH [of acc s2] show ?thesis by simp
  next
    fix e s2
    assume pc: "process_company w self c s = (Inr (Some e), s2)"
       and eq: "process_companies w self (c # cs) acc s = process_companies w self cs (acc @ [e]) s2"
    have "\<forall>e' \<in> set (acc @ [e]). truthy (jurisdiction e') \<and> truthy (company_number e')"
      using Cons.prems(2) process_company_entry [OF pc] by auto
    with eq Cons.prems(1) Cons.IH [of "acc @ [e]" s2] show ?thesis by simp
  qed
qed

lemma process_companies_append:
  "process_companies w self (xs @ ys) acc s =
     (case process_companies w self xs acc s of
        (Inl e, s1) \<Rightarrow> (Inl e, s1)
      | (Inr rs, s1) \<Rightarrow> process_companies w self ys rs s1)"
proof (induction xs arbitrary: acc s)
  case Nil
  show ?case by simp
next
  case (Cons c cs)
  show ?case
    by (rule process_companies_step [of w self c s cs acc])
       (simp_all add: Cons.IH is_Exception_all)
qed

lemma process_company_skips:
  assumes "py_get c ''company'' (JObj []) = Inr (JObj company)"
      and "\<not> truthy (dict_get company ''jurisdiction_code'' JNull) \<or>
           \<not> truthy (dict_get company ''company_number'' JNull)"
  shows "process_company w self c s = (Inr None, s)"
  using assms by (auto simp: process_company_def Let_def)

lemma process_company_appends:
  assumes "py_get c ''company'' (JObj []) = Inr (JObj company)"
      and "truthy (dict_get company ''jurisdiction_code'' JNull)"
      and "truthy (dict_get company ''company_number'' JNull)"
      and "get_company_officers w self (dict_get company ''jurisdiction_code'' JNull)
             (dict_get company ''company_number'' JNull) s = (Inr offs, s1)"
  shows "process_company w self c s =
           (Inr (Some \<lparr>company_name = dict_get company ''name'' JNull,
                       jurisdiction = dict_get company ''jurisdiction_code'' JNull,
                       company_number = dict_get company ''company_number'' JNull,
                       incorporation_date = dict_get company ''incorporation_date'' JNull,
                       company_type = dict_get company ''company_type'' JNull,
                       current_status = dict_get company ''current_status'' JNull,
                       officers = offs\<rparr>), s1)"
  using assms by (simp add: process_company_def Let_def)

lemma process_company_has_ids:
  assumes "process_company w self c s = (Inr (Some e), s1)"
  shows "has_ids c"
proof (cases "py_get c ''company'' (JObj [])")
  case (Inl x)
  with assms show ?thesis by (simp add: process_company_def)
next
  case (Inr v)
  show ?thesis
  proof (cases v)
    case (JObj company)
    with assms Inr show ?thesis
      by (cases "truthy (dict_get company ''jurisdiction_code'' JNull) \<and>
                 truthy (dict_get company ''company_number'' JNull)")
         (auto simp: process_company_def has_ids_def Let_def)
  qed (use assms Inr in \<open>simp_all add: process_company_def\<close>)
qed

lemma process_company_resolves:
  assumes "has_ids c"
      and "\<forall>jur num t. \<not> isl (fst (get_company_officers w self jur num t))"
  shows "\<exists>e s1. process_company w self c s = (Inr (Some e), s1)"
proof (cases "py_get c ''company'' (JObj [])")
  case (Inl x)
  with assms(1) show ?thesis by (simp add: has_ids_def)
next
  case (Inr v)
  show ?thesis
  proof (cases v)
    case (JObj company)
    let ?jur = "dict_get company ''jurisdiction_code'' JNull"
    let ?num = "dict_get company ''company_number'' JNull"
    from assms(1) Inr JObj have ids: "truthy ?jur" "truthy ?num"
      by (simp_all add: has_ids_def)
    from assms(2) have "\<not> isl (fst (get_company_officers w self ?jur ?num s))"
      by blast
    then obtain offs s1 where "get_company_officers w self ?jur ?num s = (Inr offs, s1)"
      by (cases "get_company_officers w self ?jur ?num s",
          cases "fst (get_company_officers w self ?jur ?num s)") auto
    from process_company_appends [OF _ ids this, of c] Inr JObj show ?thesis
      by simp
  qed (use assms(1) Inr in \<open>simp_all add: has_ids_def\<close>)
qed

lemma process_companies_count:
  "process_companies w self cs acc s = (Inr rs, s1) \<Longrightarrow>
   length rs \<le> length acc + length (filter has_ids cs)"
proof (induction cs arbitrary: acc s)
  case Nil
  then show ?case by simp
next
  case (Cons c cs)
  show ?case
  proof (rule process_companies_step [of w self c s cs acc])
    fix x s2
    assume "process_companies w self (c # cs) acc s =
            process_companies w self cs acc (s2\<lparr>printed := printed s2 @ [ErrorProcessingCompany x]\<rparr>)"
    with Cons.prems Cons.IH [of acc "s2\<lparr>printed := printed s2 @ [ErrorProcessingCompany x]\<rparr>"]
    show ?thesis by simp
  next
    fix s2
    assume "process_companies w self (c # cs) acc s = process_companies w self cs acc s2"
    with Cons.prems Cons.IH [of acc s2] show ?thesis by simp
  next
    fix e s2
    assume pc: "process_company w self c s = (Inr (Some e), s2)"
       and eq: "process_companies w self (c # cs) acc s = process_companies w self cs (acc @ [e]) s2"
    from process_company_has_ids [OF pc] eq Cons.prems Cons.IH [of "acc @ [e]" s2]
    show ?thesis by simp
  qed
qed

lemma process_companies_all:
  assumes "\<forall>jur num t. \<not> isl (fst (get_company_officers w self jur num t))"
  shows "process_companies w self cs acc s = (Inr rs, s1) \<Longrightarrow>
         length rs = length acc + length (filter has_ids cs)"
proof (induction cs arbitrary: acc s)
  case Nil
  then show ?case by simp
next
  case (Cons c cs)
  show ?case
  proof (rule process_companies_step [of w self c s cs acc])
    fix x s2
    assume pc: "process_company w self c s = (Inl x, s2)"
       and eq: "process_companies w self (c # cs) acc s =
                process_companies w self cs acc (s2\<lparr>printed := printed s2 @ [ErrorProcessingCompany x]\<rparr>)"
    have "\<not> has_ids c"
      using process_company_resolves [OF _ assms, of c s] pc by auto
    with eq Cons.prems Cons.IH [of acc "s2\<lparr>printed := printed s2 @ [ErrorProcessingCompany x]\<rparr>"]
    show ?thesis by simp
  next
    fix s2
    assume pc: "process_company w self c s = (Inr None, s2)"
       and eq: "process_companies w self (c # cs) acc s = process_companies w self cs acc s2"
    have "\<not> has_ids c"
      using process_company_resolves [OF _ assms, of c s] pc by auto
    with eq Cons.prems Cons.IH [of acc s2] show ?thesis by simp
  next
    fix e s2
    assume pc: "process_company w self c s = (Inr (Some e), s2)"
       and eq: "process_companies w self (c # cs) acc s = process_companies w self cs (acc @ [e]) s2"
    from process_company_has_ids [OF pc] eq Cons.prems Cons.IH [of "acc @ [e]" s2]
    show ?thesis by simp
  qed
qed

section \<open>The shape of a lookup\<close>

lemma py_slice3_length: "py_slice3 v = Inr xs \<Longrightarrow> length xs \<le> 3"
  by (cases v) auto

lemma find_company_controllers_cases:
  assumes "find_company_controllers w self name hint s = (Inr r, s')"
  obtains (not_found) code companies where
      "jurisdiction_code hint = Inr code"
      "search_companies w self name code s = (Inr companies, s')"
      "\<not> truthy companies"
      "r = \<lparr>status = ''not_found'',
            message = ''No companies found matching '' @ [CHR 0x27] @ format_value w name @ [CHR 0x27],
            results = []\<rparr>"
  | (found) code companies s1 top3 rs where
      "jurisdiction_code hint = Inr code"
      "search_companies w self name code s = (Inr companies, s1)"
      "truthy companies"
      "py_slice3 companies = Inr top3"
      "process_companies w self top3 [] s1 = (Inr rs, s')"
      "r = \<lparr>status = (if rs \<noteq> [] then ''success'' else ''partial_results''),
            message = ''Found '' @ str_nat (length rs) @ '' potential matches for '' @
                      [CHR 0x27] @ format_value w name @ [CHR 0x27],
            results = rs\<rparr>"
proof (cases "jurisdiction_code hint")
  case (Inl e)
  with assms show ?thesis by (simp add: find_company_controllers_def)
next
  case (Inr code)
  obtain res s1 where sc: "search_companies w self name code s = (res, s1)"
    by (cases "search_companies w self name code s")
  show ?thesis
  proof (cases res)
    case (Inl e)
    with assms Inr sc show ?thesis by (simp add: find_company_controllers_def)
  next
    case companies: (Inr companies)
    show ?thesis
    proof (cases "truthy companies")
      case False
      with assms Inr sc companies not_found [of code companies] show ?thesis
        by (simp add: find_company_controllers_def)
    next
      case True
      show ?thesis
      proof (cases "py_slice3 companies")
        case (Inl e)
        with assms Inr sc companies True show ?thesis
          by (simp add: find_company_controllers_def)
      next
        case top3: (Inr top3)
        obtain rs s2 where pc: "process_companies w self top3 [] s1 = (Inr rs, s2)"
          using process_companies_returns by blast
        with assms Inr sc companies True top3 found [of code companies s1 top3 rs] show ?thesis
          by (simp add: find_company_controllers_def)
      qed
    qed
  qed
qed

lemma search_companies_sent:
  "sent (snd (search_companies w self q code s)) =
     sent s @ [(base_url self @ ''/'' @ ''companies/search'', with_token self (search_params q code))]"
  using make_request_sent [of w self "''companies/search''" "Some (search_params q code)" s]
  by (cases "make_request w self ''companies/search'' (Some (search_params q code)) s")
     (auto simp: search_companies_def split: sum.splits)

lemma get_company_officers_sent:
  "prefix (sent s) (sent (snd (get_company_officers w self jur num s)))"
  using make_request_sent [of w self "officers_endpoint w jur num" None s]
  by (cases "make_request w self (officers_endpoint w jur num) None s")
     (auto simp: get_company_officers_def split: sum.splits)

lemma process_company_sent:
  "prefix (sent s) (sent (snd (process_company w self c s)))"
proof (cases "py_get c ''company'' (JObj [])")
  case (Inl e)
  then show ?thesis by (simp add: process_company_def)
next
  case (Inr v)
  show ?thesis
  proof (cases v)
    case (JObj company)
    let ?jur = "dict_get company ''jurisdiction_code'' JNull"
    let ?num = "dict_get company ''company_number'' JNull"
    show ?thesis
    proof (cases "truthy ?jur \<and> truthy ?num")
      case True
      with Inr JObj get_company_officers_sent [of s w self ?jur ?num] show ?thesis
        by (cases "get_company_officers w self ?jur ?num s")
           (auto simp: process_company_def Let_def split: sum.splits)
    next
      case False
      with Inr JObj show ?thesis by (auto simp: process_company_def Let_def)
    qed
  qed (use Inr in \<open>simp_all add: process_company_def\<close>)
qed

lemma process_companies_sent:
  "prefix (sent s) (sent (snd (process_companies w self cs acc s)))"
proof (induction cs arbitrary: acc s)
  case Nil
  show ?case by simp
next
  case (Cons c cs)
  show ?case
  proof (rule process_companies_step [of w self c s cs acc])
    fix x s2
    assume pc: "process_company w self c s = (Inl x, s2)"
       and eq: "process_companies w self (c # cs) acc s =
                process_companies w self cs acc (s2\<lparr>printed := printed s2 @ [ErrorProcessingCompany x]\<rparr>)"
    from process_company_sent [of s w self c] pc have "prefix (sent s) (sent s2)" by simp
    with Cons.IH [of "s2\<lparr>printed := printed s2 @ [ErrorProcessingCompany x]\<rparr>" acc] eq
    show ?thesis by (auto intro: prefix_order.trans)
  next
    fix s2
    assume pc: "process_company w self c s = (Inr None, s2)"
       and eq: "process_companies w self (c # cs) acc s = process_companies w self cs acc s2"
    from process_company_sent [of s w self c] pc have "prefix (sent s) (sent s2)" by simp
    with Cons.IH [of s2 acc] eq show ?thesis by (auto intro: prefix_order.trans)
  next
    fix e s2
    assume pc: "process_company w self c s = (Inr (Some e), s2)"
       and eq: "process_companies w self (c # cs) acc s = process_companies w self cs (acc @ [e]) s2"
    from process_company_sent [of s w self c] pc have "prefix (sent s) (sent s2)" by simp
    with Cons.IH [of s2 "acc @ [e]"] eq show ?thesis by (auto intro: prefix_order.trans)
  qed
qed

lemma find_company_controllers_sent:
  assumes "jurisdiction_code hint = Inr code"
  shows "prefix (sent (snd (search_companies w self name code s)))
                (sent (snd (find_company_controllers w self name hint s)))"
proof -
  obtain res s1 where sc: "search_companies w self name code s = (res, s1)"
    by (cases "search_companies w self name code s")
  show ?thesis
  proof (cases res)
    case (Inl e)
    with assms sc show ?thesis by (simp add: find_company_controllers_def)
  next
    case companies: (Inr companies)
    show ?thesis
    proof (cases "truthy companies")
      case False
      with assms sc companies show ?thesis by (simp add: find_company_controllers_def)
    next
      case True
      show ?thesis
      proof (cases "py_slice3 companies")
        case (Inl e)
        with assms sc companies True show ?thesis by (simp add: find_company_controllers_def)
      next
        case top3: (Inr top3)
        obtain rs s2 where pc: "process_companies w self top3 [] s1 = (Inr rs, s2)"
          using process_companies_returns by blast
        with process_companies_sent [of s1 w self top3 "[]"] have "prefix (sent s1) (sent s2)"
          by simp
        with assms sc companies True top3 pc show ?thesis
          by (simp add: find_company_controllers_def)
      qed
    qed
  qed
qed

lemma find_company_controllers_unresolved:
  assumes "jurisdiction_code hint = Inr None"
  shows "find_company_controllers w self name hint s = find_company_controllers w self name JNull s"
  using assms by (simp add: find_company_controllers_def jurisdiction_code_def)

lemma map_of_with_token:
  "k \<noteq> ''api_token'' \<Longrightarrow> map_of (with_token self ps) k = map_of ps k"
  by (simp add: with_token_def update_conv' split: option.splits)

lemma jurisdiction_code_str:
  "jurisdiction_code (JStr h) = Inr (map_of state_codes (map lower_char h))"
  by (simp add: jurisdiction_code_def state_codes_def)

section \<open>The status of a lookup\<close>

text \<open>
  Claim C1. Whenever \<^verbatim>\<open>find_company_controllers\<close> returns, the search step has returned
  a value \<open>companies\<close>, and the status is \<^verbatim>\<open>not_found\<close> exactly when \<open>companies\<close> is empty
  (for a list: when it has no element; this is also what the search step returns when
  the request layer gave it an error result), \<^verbatim>\<open>success\<close> exactly when at least one entry
  was appended to the results, and \<^verbatim>\<open>partial_results\<close> exactly when there were candidates
  and no entry was appended. The entries come from the candidates: there are at most as
  many as there are candidates with both identifiers among the first three, so the
  status is \<^verbatim>\<open>partial_results\<close> when none of these has both, and \<^verbatim>\<open>success\<close> needs one that
  has; when no officers request raises, every such candidate gives an entry, and the
  status is \<^verbatim>\<open>success\<close> exactly when one of the first three candidates has both
  identifiers.
\<close>

theorem status_classification:
  assumes "find_company_controllers w self name hint s = (Inr r, s')"
  shows "\<exists>code companies s1.
           jurisdiction_code hint = Inr code \<and>
           search_companies w self name code s = (Inr companies, s1) \<and>
           (status r = ''not_found'' \<longleftrightarrow> \<not> truthy companies) \<and>
           (\<forall>cs. companies = JArr cs \<longrightarrow> (status r = ''not_found'' \<longleftrightarrow> cs = [])) \<and>
           (\<forall>m s0. make_request w self ''companies/search'' (Some (search_params name code)) s =
                      (Inr (JObj [(''error'', JStr m)]), s0) \<longrightarrow> status r = ''not_found'') \<and>
           (status r = ''success'' \<longleftrightarrow> results r \<noteq> []) \<and>
           (status r = ''partial_results'' \<longleftrightarrow> truthy companies \<and> results r = []) \<and>
           (status r = ''not_found'' \<or> status r = ''success'' \<or> status r = ''partial_results'') \<and>
           (\<forall>top3. py_slice3 companies = Inr top3 \<longrightarrow>
              length (results r) \<le> length (filter has_ids top3) \<and>
              ((\<forall>c \<in> set top3. \<not> has_ids c) \<and> truthy companies \<longrightarrow>
                 status r = ''partial_results'' \<and> results r = []) \<and>
              (status r = ''success'' \<longrightarrow> (\<exists>c \<in> set top3. has_ids c)) \<and>
              ((\<forall>jur num t. \<not> isl (fst (get_company_officers w self jur num t))) \<longrightarrow>
                 length (results r) = length (filter has_ids top3) \<and>
                 (status r = ''success'' \<longleftrightarrow> (\<exists>c \<in> set top3. has_ids c)) \<and>
                 (status r = ''partial_results'' \<longleftrightarrow>
                    truthy companies \<and> (\<forall>c \<in> set top3. \<not> has_ids c))))"
  using assms
proof (cases rule: find_company_controllers_cases)
  case (not_found code companies)
  have "filter has_ids top3 = [] \<and> top3 = []" if "py_slice3 companies = Inr top3" for top3
    using that not_found(3) by (cases companies) auto
  with not_found show ?thesis by auto
next
  case (found code companies s1 top3 rs)
  have nf: "status r \<noteq> ''not_found''"
    using found(6) by simp
  have no_err: "\<forall>m s0. make_request w self ''companies/search'' (Some (search_params name code)) s \<noteq>
                   (Inr (JObj [(''error'', JStr m)]), s0)"
    using found(2,3) by (auto simp: search_companies_def results_field_error)
  have count: "length rs \<le> length (filter has_ids top3)"
    using process_companies_count [OF found(5)] by simp
  have none: "rs = []" if "\<forall>c \<in> set top3. \<not> has_ids c"
  proof -
    from that have "filter has_ids top3 = []" by (simp add: filter_empty_conv)
    with count show ?thesis by simp
  qed
  have some: "\<exists>c \<in> set top3. has_ids c" if "rs \<noteq> []"
    using that none by blast
  have full: "length rs = length (filter has_ids top3)"
    if "\<forall>jur num t. \<not> isl (fst (get_company_officers w self jur num t))"
    using process_companies_all [OF that found(5)] by simp
  have every: "rs \<noteq> []"
    if "\<forall>jur num t. \<not> isl (fst (get_company_officers w self jur num t))" "\<exists>c \<in> set top3. has_ids c"
  proof -
    from that(2) have "filter has_ids top3 \<noteq> []" by (simp add: filter_empty_conv)
    with full [OF that(1)] show ?thesis by auto
  qed
  have link: "length (results r) \<le> length (filter has_ids top3) \<and>
              ((\<forall>c \<in> set top3. \<not> has_ids c) \<and> truthy companies \<longrightarrow>
                 status r = ''partial_results'' \<and> results r = []) \<and>
              (status r = ''success'' \<longrightarrow> (\<exists>c \<in> set top3. has_ids c)) \<and>
              ((\<forall>jur num t. \<not> isl (fst (get_company_officers w self jur num t))) \<longrightarrow>
                 length (results r) = length (filter has_ids top3) \<and>
                 (status r = ''success'' \<longleftrightarrow> (\<exists>c \<in> set top3. has_ids c)) \<and>
                 (status r = ''partial_results'' \<longleftrightarrow>
                    truthy companies \<and> (\<forall>c \<in> set top3. \<not> has_ids c)))"
    using found(3,6) count none some full every by auto
  have "jurisdiction_code hint = Inr code \<and>
        search_companies w self name code s = (Inr companies, s1) \<and>
        (status r = ''not_found'' \<longleftrightarrow> \<not> truthy companies) \<and>
        (\<forall>cs. companies = JArr cs \<longrightarrow> (status r = ''not_found'' \<longleftrightarrow> cs = [])) \<and>
        (\<forall>m s0. make_request w self ''companies/search'' (Some (search_params name code)) s =
                   (Inr (JObj [(''error'', JStr m)]), s0) \<longrightarrow> status r = ''not_found'') \<and>
        (status r = ''success'' \<longleftrightarrow> results r \<noteq> []) \<and>
        (status r = ''partial_results'' \<longleftrightarrow> truthy companies \<and> results r = []) \<and>
        (status r = ''not_found'' \<or> status r = ''success'' \<or> status r = ''partial_results'')"
    using found nf no_err by auto
  with link found(4) show ?thesis
    by (intro exI [of _ code] exI [of _ companies] exI [of _ s1]) simp
qed

theorem status_classification_witness:
  "\<not> isl (fst (find_company_controllers registry_mixed agent0 (JStr ''ACME'') (JStr ''Illinois'') io0)) \<and>
   fst (search_companies registry_mixed agent0 (JStr ''ACME'') (Some ''us_il'') io0) =
     Inr (JArr [hit ''A'' ''us_ca'' ''1'', JNull, incomplete, hit ''B'' ''us_il'' ''2'']) \<and>
   has_ids (hit ''A'' ''us_ca'' ''1'') \<and>
   status (projr (fst (find_company_controllers registry_mixed agent0 (JStr ''ACME'') (JStr ''Illinois'') io0))) = ''success'' \<and>
   length (results (projr (fst (find_company_controllers registry_mixed agent0 (JStr ''ACME'') (JStr ''Illinois'') io0)))) = 1 \<and>
   \<not> isl (fst (find_company_controllers registry_incomplete agent0 (JStr ''ACME'') (JStr ''Illinois'') io0)) \<and>
   fst (search_companies registry_incomplete agent0 (JStr ''ACME'') (Some ''us_il'') io0) = Inr (JArr [incomplete]) \<and>
   \<not> has_ids incomplete \<and>
   status (projr (fst (find_company_controllers registry_incomplete agent0 (JStr ''ACME'') (JStr ''Illinois'') io0))) =
     ''partial_results'' \<and>
   \<not> isl (fst (find_company_controllers registry_down agent0 (JStr ''ACME'') (JStr ''Illinois'') io0)) \<and>
   fst (make_request registry_down agent0 ''companies/search''
          (Some (search_params (JStr ''ACME'') (Some ''us_il''))) io0) =
     Inr (JObj [(''error'', JStr ''Connection refused'')]) \<and>
   status (projr (fst (find_company_controllers registry_down agent0 (JStr ''ACME'') (JStr ''Illinois'') io0))) = ''not_found''"
proof -
  let ?name = "JStr ''ACME''"
  let ?call = "find_company_controllers registry_mixed agent0 ?name (JStr ''Illinois'') io0"
  let ?search = "search_companies registry_mixed agent0 ?name (Some ''us_il'') io0"
  let ?found = "[hit ''A'' ''us_ca'' ''1'', JNull, incomplete, hit ''B'' ''us_il'' ''2'']"
  let ?part = "find_company_controllers registry_incomplete agent0 ?name (JStr ''Illinois'') io0"
  let ?search_part = "search_companies registry_incomplete agent0 ?name (Some ''us_il'') io0"
  let ?down = "find_company_controllers registry_down agent0 ?name (JStr ''Illinois'') io0"
  let ?req = "make_request registry_down agent0 ''companies/search''
                (Some (search_params ?name (Some ''us_il''))) io0"
  have code: "jurisdiction_code (JStr ''Illinois'') = Inr (Some ''us_il'')"
    by code_simp

  have ret: "\<not> isl (fst ?call)"
    by code_simp
  have found: "fst ?search = Inr (JArr ?found)"
    by code_simp
  then have search: "?search = (Inr (JArr ?found), snd ?search)"
    by (cases ?search) simp
  have top3: "py_slice3 (JArr ?found) = Inr [hit ''A'' ''us_ca'' ''1'', JNull, incomplete]"
    by simp
  have ids: "has_ids (hit ''A'' ''us_ca'' ''1'')" "\<not> has_ids JNull" "\<not> has_ids incomplete"
    by code_simp+
  have quiet: "\<forall>jur num t. \<not> isl (fst (get_company_officers registry_mixed agent0 jur num t))"
    unfolding registry_mixed_def hits_def no_officers_def
    by (intro allI registry_officers_return) simp_all
  from ret obtain r s' where call: "?call = (Inr r, s')"
    by (cases ?call, cases "fst ?call") auto
  from status_classification [OF call] code search
  have "\<forall>top3. py_slice3 (JArr ?found) = Inr top3 \<longrightarrow>
          ((\<forall>jur num t. \<not> isl (fst (get_company_officers registry_mixed agent0 jur num t))) \<longrightarrow>
             length (results r) = length (filter has_ids top3) \<and>
             (status r = ''success'' \<longleftrightarrow> (\<exists>c \<in> set top3. has_ids c)))"
    by auto
  with top3 quiet ids have success: "status r = ''success'' \<and> length (results r) = 1"
    by simp

  have ret_part: "\<not> isl (fst ?part)"
    by code_simp
  have found_part: "fst ?search_part = Inr (JArr [incomplete])"
    by code_simp
  then have search_part: "?search_part = (Inr (JArr [incomplete]), snd ?search_part)"
    by (cases ?search_part) simp
  from ret_part obtain r1 s1 where part: "?part = (Inr r1, s1)"
    by (cases ?part, cases "fst ?part") auto
  from status_classification [OF part] code search_part
  have "\<forall>top3. py_slice3 (JArr [incomplete]) = Inr top3 \<longrightarrow>
          ((\<forall>c \<in> set top3. \<not> has_ids c) \<and> truthy (JArr [incomplete]) \<longrightarrow>
             status r1 = ''partial_results'' \<and> results r1 = [])"
    by auto
  with ids have partial: "status r1 = ''partial_results''"
    by simp

  have ret2: "\<not> isl (fst ?down)"
    by code_simp
  have err: "fst ?req = Inr (JObj [(''error'', JStr ''Connection refused'')])"
    by code_simp
  then have req: "?req = (Inr (JObj [(''error'', JStr ''Connection refused'')]), snd ?req)"
    by (cases ?req) simp
  from ret2 obtain r2 s2 where down: "?down = (Inr r2, s2)"
    by (cases ?down, cases "fst ?down") auto
  from status_classification [OF down] code req have not_found: "status r2 = ''not_found''"
    by auto
  have evaluated:
    "status (projr (fst ?call)) = ''success''"
    "length (results (projr (fst ?call))) = 1"
    "status (projr (fst ?part)) = ''partial_results''"
    "results (projr (fst ?part)) = []"
    "status (projr (fst ?down)) = ''not_found''"
    "results (projr (fst ?down)) = []"
    by code_simp+
  with success partial not_found ret found ids call ret_part found_part part ret2 err down
  show ?thesis
    by simp
qed

section \<open>The cap on the results\<close>

text \<open>
  Claim C2. Whenever \<^verbatim>\<open>find_company_controllers\<close> returns, its results have at most three
  entries, however many hits the search step returned.
\<close>

theorem results_at_most_three:
  assumes "find_company_controllers w self name hint s = (Inr r, s')"
  shows "length (results r) \<le> 3"
  using assms
proof (cases rule: find_company_controllers_cases)
  case (not_found code companies)
  then show ?thesis by simp
next
  case (found code companies s1 top3 rs)
  from process_companies_length [OF found(5)] py_slice3_length [OF found(4)] found(6)
  show ?thesis by simp
qed

theorem results_at_most_three_witness:
  "\<not> isl (fst (find_company_controllers registry_five agent0 (JStr ''ACME'') (JStr ''CA'') io0)) \<and>
   length (results (projr (fst (find_company_controllers registry_five agent0 (JStr ''ACME'') (JStr ''CA'') io0)))) \<le> 3 \<and>
   map company_name (results (projr (fst (find_company_controllers registry_five agent0 (JStr ''ACME'') (JStr ''CA'') io0))))
     = [JStr ''A'', JStr ''B'', JStr ''C'']"
proof -
  let ?call = "find_company_controllers registry_five agent0 (JStr ''ACME'') (JStr ''CA'') io0"
  have ret: "\<not> isl (fst ?call)"
    by code_simp
  then obtain r s' where call: "?call = (Inr r, s')"
    by (cases ?call, cases "fst ?call") auto
  have names: "map company_name (results (projr (fst ?call))) = [JStr ''A'', JStr ''B'', JStr ''C'']"
    by code_simp
  from results_at_most_three [OF call] ret call names show ?thesis by simp
qed

section \<open>The entries of the results\<close>

text \<open>
  Claim C3. Every entry of the results of a lookup has a jurisdiction code and a company
  number that are not null (they are true values). A candidate whose company record
  lacks either field, or has null there, is skipped in silence: the loop body appends
  nothing, makes no request and prints nothing, and the loop goes on as if the candidate
  were not in the list.
\<close>

theorem entries_have_identifiers:
  "(find_company_controllers w self name hint s = (Inr r, s') \<longrightarrow>
      (\<forall>e \<in> set (results r).
         jurisdiction e \<noteq> JNull \<and> company_number e \<noteq> JNull \<and>
         truthy (jurisdiction e) \<and> truthy (company_number e))) \<and>
   (py_get c ''company'' (JObj []) = Inr (JObj company) \<and>
    (dict_get company ''jurisdiction_code'' JNull = JNull \<or>
     dict_get company ''company_number'' JNull = JNull) \<longrightarrow>
      process_company w self c t = (Inr None, t) \<and>
      process_companies w self (c # cs) acc t = process_companies w self cs acc t)"
proof (rule conjI; rule impI)
  assume call: "find_company_controllers w self name hint s = (Inr r, s')"
  have "\<forall>e \<in> set (results r). truthy (jurisdiction e) \<and> truthy (company_number e)"
    using call
  proof (cases rule: find_company_controllers_cases)
    case (not_found code companies)
    then show ?thesis by simp
  next
    case (found code companies s1 top3 rs)
    from process_companies_entries [OF found(5)] found(6) show ?thesis by simp
  qed
  then show "\<forall>e \<in> set (results r).
         jurisdiction e \<noteq> JNull \<and> company_number e \<noteq> JNull \<and>
         truthy (jurisdiction e) \<and> truthy (company_number e)"
    by auto
next
  assume missing: "py_get c ''company'' (JObj []) = Inr (JObj company) \<and>
    (dict_get company ''jurisdiction_code'' JNull = JNull \<or>
     dict_get company ''company_number'' JNull = JNull)"
  then have skip: "process_company w self c t = (Inr None, t)"
    by (intro process_company_skips [of c company]) auto
  then show "process_company w self c t = (Inr None, t) \<and>
      process_companies w self (c # cs) acc t = process_companies w self cs acc t"
    by simp
qed

theorem entries_have_identifiers_witness:
  "\<not> isl (fst (find_company_controllers registry_mixed agent0 (JStr ''ACME'') JNull io0)) \<and>
   map jurisdiction (results (projr (fst (find_company_controllers registry_mixed agent0 (JStr ''ACME'') JNull io0))))
     = [JStr ''us_ca''] \<and>
   jurisdiction (hd (results (projr (fst (find_company_controllers registry_mixed agent0 (JStr ''ACME'') JNull io0)))))
     \<noteq> JNull \<and>
   company_number (hd (results (projr (fst (find_company_controllers registry_mixed agent0 (JStr ''ACME'') JNull io0)))))
     \<noteq> JNull \<and>
   py_get incomplete ''company'' (JObj []) = Inr (JObj [(''name'', JStr ''C''), (''company_number'', JStr ''7'')]) \<and>
   dict_get [(''name'', JStr ''C''), (''company_number'', JStr ''7'')] ''jurisdiction_code'' JNull = JNull \<and>
   process_company registry_mixed agent0 incomplete io0 = (Inr None, io0)"
proof -
  let ?call = "find_company_controllers registry_mixed agent0 (JStr ''ACME'') JNull io0"
  let ?company = "[(''name'', JStr ''C''), (''company_number'', JStr ''7'')]"
  have ret: "\<not> isl (fst ?call)"
    by code_simp
  have js: "map jurisdiction (results (projr (fst ?call))) = [JStr ''us_ca'']"
    by code_simp
  have c: "py_get incomplete ''company'' (JObj []) = Inr (JObj ?company)"
    by code_simp
  have j: "dict_get ?company ''jurisdiction_code'' JNull = JNull"
    by code_simp
  from ret obtain r s' where call: "?call = (Inr r, s')"
    by (cases ?call, cases "fst ?call") auto
  note inst = entries_have_identifiers
    [of registry_mixed agent0 "JStr ''ACME''" JNull io0 r s' incomplete ?company io0 "[]" "[]"]
  from js call have "hd (results r) \<in> set (results r)"
    by auto
  with inst call have "jurisdiction (hd (results r)) \<noteq> JNull \<and> company_number (hd (results r)) \<noteq> JNull"
    by blast
  moreover from inst c j have "process_company registry_mixed agent0 incomplete io0 = (Inr None, io0)"
    by blast
  ultimately show ?thesis
    using ret js c j call by simp
qed

section \<open>The message of a lookup\<close>

lemma find_company_controllers_length:
  assumes "find_company_controllers w self name hint s = (Inr r, s')"
  shows "length (results r) \<le> 3"
  using assms
proof (cases rule: find_company_controllers_cases)
  case (not_found code companies)
  then show ?thesis by simp
next
  case (found code companies s1 top3 rs)
  from process_companies_length [OF found(5)] py_slice3_length [OF found(4)] found(6)
  show ?thesis by simp
qed

text \<open>
  Claim C6. Whenever \<^verbatim>\<open>find_company_controllers\<close> returns and the search step returned
  candidates, the message is \<^verbatim>\<open>Found k potential matches for 'name'\<close> with \<open>k\<close> the number
  of entries of the results in decimal, one of the digits 0 to 3 (zero when no candidate
  was resolved); when the search step returned none, the message is
  \<^verbatim>\<open>No companies found matching 'name'\<close>, which contains the name.
\<close>

theorem message_text:
  assumes "find_company_controllers w self name hint s = (Inr r, s')"
  shows "\<exists>code companies s1.
           jurisdiction_code hint = Inr code \<and>
           search_companies w self name code s = (Inr companies, s1) \<and>
           (truthy companies \<longrightarrow>
              message r = ''Found '' @ str_nat (length (results r)) @ '' potential matches for '' @
                          [CHR 0x27] @ format_value w name @ [CHR 0x27]) \<and>
           (\<not> truthy companies \<longrightarrow>
              results r = [] \<and>
              message r = ''No companies found matching '' @ [CHR 0x27] @ format_value w name @ [CHR 0x27] \<and>
              sublist (format_value w name) (message r)) \<and>
           (\<forall>n. name = JStr n \<longrightarrow> format_value w name = n) \<and>
           str_nat (length (results r)) =
             (if length (results r) = 0 then ''0''
              else if length (results r) = 1 then ''1''
              else if length (results r) = 2 then ''2''
              else ''3'')"
proof -
  have str_nat_digit:
    "str_nat 0 = ''0''" "str_nat 1 = ''1''" "str_nat 2 = ''2''" "str_nat 3 = ''3''"
    by code_simp+
  have "length (results r) = 0 \<or> length (results r) = 1 \<or> length (results r) = 2 \<or>
        length (results r) = 3"
    using find_company_controllers_length [OF assms] by arith
  then have digit: "str_nat (length (results r)) =
             (if length (results r) = 0 then ''0''
              else if length (results r) = 1 then ''1''
              else if length (results r) = 2 then ''2''
              else ''3'')"
    using str_nat_digit by (elim disjE) simp_all
  from assms have "\<exists>code companies s1.
           jurisdiction_code hint = Inr code \<and>
           search_companies w self name code s = (Inr companies, s1) \<and>
           (truthy companies \<longrightarrow>
              message r = ''Found '' @ str_nat (length (results r)) @ '' potential matches for '' @
                          [CHR 0x27] @ format_value w name @ [CHR 0x27]) \<and>
           (\<not> truthy companies \<longrightarrow>
              results r = [] \<and>
              message r = ''No companies found matching '' @ [CHR 0x27] @ format_value w name @ [CHR 0x27] \<and>
              sublist (format_value w name) (message r)) \<and>
           (\<forall>n. name = JStr n \<longrightarrow> format_value w name = n)"
  proof (cases rule: find_company_controllers_cases)
    case (not_found code companies)
    have "sublist (format_value w name)
            ((''No companies found matching '' @ [CHR 0x27]) @ format_value w name @ [CHR 0x27])"
      by (rule sublist_appendI)
    with not_found show ?thesis
      by (auto simp: format_value_def)
  next
    case (found code companies s1 top3 rs)
    then show ?thesis
      by (auto simp: format_value_def)
  qed
  with digit show ?thesis
    by blast
qed

theorem message_text_witness:
  "\<not> isl (fst (find_company_controllers registry_incomplete agent0 (JStr ''HOMECOMERS RCC INC'') (JStr ''CA'') io0)) \<and>
   search_companies registry_incomplete agent0 (JStr ''HOMECOMERS RCC INC'') (Some ''us_ca'') io0 =
     (Inr (JArr [incomplete]),
      \<lparr>sent = [(''https://api.opencorporates.com/v0.4/companies/search'',
                [(''q'', JStr ''HOMECOMERS RCC INC''), (''jurisdiction_code'', JStr ''us_ca'')])],
       printed = []\<rparr>) \<and>
   truthy (JArr [incomplete]) \<and>
   message (projr (fst (find_company_controllers registry_incomplete agent0 (JStr ''HOMECOMERS RCC INC'') (JStr ''CA'') io0)))
     = ''Found 0 potential matches for '' @ [CHR 0x27] @ ''HOMECOMERS RCC INC'' @ [CHR 0x27] \<and>
   \<not> isl (fst (find_company_controllers registry_empty agent0 (JStr ''CTJ ESTATE LLC'') JNull io0)) \<and>
   fst (search_companies registry_empty agent0 (JStr ''CTJ ESTATE LLC'') None io0) = Inr (JArr []) \<and>
   \<not> truthy (JArr []) \<and>
   message (projr (fst (find_company_controllers registry_empty agent0 (JStr ''CTJ ESTATE LLC'') JNull io0)))
     = ''No companies found matching '' @ [CHR 0x27] @ ''CTJ ESTATE LLC'' @ [CHR 0x27] \<and>
   \<not> isl (fst (find_company_controllers registry_five agent0 (JStr ''ACME'') (JStr ''ca'') io0)) \<and>
   length (results (projr (fst (find_company_controllers registry_five agent0 (JStr ''ACME'') (JStr ''ca'') io0)))) = 3 \<and>
   message (projr (fst (find_company_controllers registry_five agent0 (JStr ''ACME'') (JStr ''ca'') io0)))
     = ''Found 3 potential matches for '' @ [CHR 0x27] @ ''ACME'' @ [CHR 0x27] \<and>
   \<not> isl (fst (find_company_controllers registry_mixed agent0 (JStr ''ACME'') JNull io0)) \<and>
   length (results (projr (fst (find_company_controllers registry_mixed agent0 (JStr ''ACME'') JNull io0)))) = 1 \<and>
   message (projr (fst (find_company_controllers registry_mixed agent0 (JStr ''ACME'') JNull io0)))
     = ''Found 1 potential matches for '' @ [CHR 0x27] @ ''ACME'' @ [CHR 0x27]"
proof -
  let ?name = "JStr ''HOMECOMERS RCC INC''"
  let ?call = "find_company_controllers registry_incomplete agent0 ?name (JStr ''CA'') io0"
  let ?s1 = "\<lparr>sent = [(''https://api.opencorporates.com/v0.4/companies/search'',
                [(''q'', ?name), (''jurisdiction_code'', JStr ''us_ca'')])],
       printed = []\<rparr>"
  let ?name2 = "JStr ''CTJ ESTATE LLC''"
  let ?call2 = "find_company_controllers registry_empty agent0 ?name2 JNull io0"
  let ?search2 = "search_companies registry_empty agent0 ?name2 None io0"
  let ?call3 = "find_company_controllers registry_five agent0 (JStr ''ACME'') (JStr ''ca'') io0"
  let ?search3 = "search_companies registry_five agent0 (JStr ''ACME'') (Some ''us_ca'') io0"
  let ?call4 = "find_company_controllers registry_mixed agent0 (JStr ''ACME'') JNull io0"
  let ?search4 = "search_companies registry_mixed agent0 (JStr ''ACME'') None io0"
  have ret: "\<not> isl (fst ?call)"
    by code_simp
  have code: "jurisdiction_code (JStr ''CA'') = Inr (Some ''us_ca'')"
    by code_simp
  have search: "search_companies registry_incomplete agent0 ?name (Some ''us_ca'') io0 =
                  (Inr (JArr [incomplete]), ?s1)"
    by code_simp
  have len: "length (results (projr (fst ?call))) = 0"
    by code_simp
  from ret obtain r s' where call: "?call = (Inr r, s')"
    by (cases ?call, cases "fst ?call") auto
  from message_text [OF call] code search
  have "message r = ''Found '' @ str_nat (length (results r)) @ '' potential matches for '' @
                    [CHR 0x27] @ format_value registry_incomplete ?name @ [CHR 0x27] \<and>
        str_nat (length (results r)) =
             (if length (results r) = 0 then ''0''
              else if length (results r) = 1 then ''1''
              else if length (results r) = 2 then ''2''
              else ''3'')"
    by auto
  with len call have found: "message r = ''Found 0 potential matches for '' @ [CHR 0x27] @ ''HOMECOMERS RCC INC'' @ [CHR 0x27]"
    by (simp add: format_value_def)

  have ret2: "\<not> isl (fst ?call2)"
    by code_simp
  have code2: "jurisdiction_code JNull = Inr None"
    by code_simp
  have none: "fst ?search2 = Inr (JArr [])"
    by code_simp
  then have search2: "?search2 = (Inr (JArr []), snd ?search2)"
    by (cases ?search2) simp
  from ret2 obtain r2 s2 where call2: "?call2 = (Inr r2, s2)"
    by (cases ?call2, cases "fst ?call2") auto
  from message_text [OF call2] code2 search2
  have "message r2 = ''No companies found matching '' @ [CHR 0x27] @ format_value registry_empty ?name2 @ [CHR 0x27]"
    by auto
  then have missing: "message r2 = ''No companies found matching '' @ [CHR 0x27] @ ''CTJ ESTATE LLC'' @ [CHR 0x27]"
    by (simp add: format_value_def)

  have ret3: "\<not> isl (fst ?call3)"
    by code_simp
  have code3: "jurisdiction_code (JStr ''ca'') = Inr (Some ''us_ca'')"
    by code_simp
  have truthy3: "\<not> isl (fst ?search3) \<and> truthy (projr (fst ?search3))"
    by code_simp
  then have search3: "?search3 = (Inr (projr (fst ?search3)), snd ?search3)"
    by (cases ?search3, cases "fst ?search3") auto
  have len3: "length (results (projr (fst ?call3))) = 3"
    by code_simp
  from ret3 obtain r3 s3 where call3: "?call3 = (Inr r3, s3)"
    by (cases ?call3, cases "fst ?call3") auto
  from message_text [OF call3] code3 search3 truthy3
  have "message r3 = ''Found '' @ str_nat (length (results r3)) @ '' potential matches for '' @
                     [CHR 0x27] @ format_value registry_five (JStr ''ACME'') @ [CHR 0x27] \<and>
        str_nat (length (results r3)) =
             (if length (results r3) = 0 then ''0''
              else if length (results r3) = 1 then ''1''
              else if length (results r3) = 2 then ''2''
              else ''3'')"
    by auto
  with len3 call3 have three: "message r3 = ''Found 3 potential matches for '' @ [CHR 0x27] @ ''ACME'' @ [CHR 0x27]"
    by (simp add: format_value_def)

  have ret4: "\<not> isl (fst ?call4)"
    by code_simp
  have truthy4: "\<not> isl (fst ?search4) \<and> truthy (projr (fst ?search4))"
    by code_simp
  then have search4: "?search4 = (Inr (projr (fst ?search4)), snd ?search4)"
    by (cases ?search4, cases "fst ?search4") auto
  have len4: "length (results (projr (fst ?call4))) = 1"
    by code_simp
  from ret4 obtain r4 s4 where call4: "?call4 = (Inr r4, s4)"
    by (cases ?call4, cases "fst ?call4") auto
  from message_text [OF call4] code2 search4 truthy4
  have "message r4 = ''Found '' @ str_nat (length (results r4)) @ '' potential matches for '' @
                     [CHR 0x27] @ format_value registry_mixed (JStr ''ACME'') @ [CHR 0x27] \<and>
        str_nat (length (results r4)) =
             (if length (results r4) = 0 then ''0''
              else if length (results r4) = 1 then ''1''
              else if length (results r4) = 2 then ''2''
              else ''3'')"
    by auto
  with len4 call4 have one: "message r4 = ''Found 1 potential matches for '' @ [CHR 0x27] @ ''ACME'' @ [CHR 0x27]"
    by (simp add: format_value_def)

  have evaluated:
    "message (projr (fst ?call)) =
       ''Found 0 potential matches for '' @ [CHR 0x27] @ ''HOMECOMERS RCC INC'' @ [CHR 0x27]"
    "message (projr (fst ?call2)) =
       ''No companies found matching '' @ [CHR 0x27] @ ''CTJ ESTATE LLC'' @ [CHR 0x27]"
    "message (projr (fst ?call3)) =
       ''Found 3 potential matches for '' @ [CHR 0x27] @ ''ACME'' @ [CHR 0x27]"
    "message (projr (fst ?call4)) =
       ''Found 1 potential matches for '' @ [CHR 0x27] @ ''ACME'' @ [CHR 0x27]"
    by code_simp+
  from evaluated found ret search call missing ret2 none call2 three ret3 len3 call3 one ret4 len4 call4
  show ?thesis by simp
qed

section \<open>Failures inside the loop\<close>

text \<open>
  Claim C7. The loop over the candidates never raises and keeps the entries it has. When
  the body raises for one candidate, after the candidates before it left the entries
  \<open>rs1\<close>, the exception is caught and printed and nothing else changes: the loop goes on
  with the remaining candidates from the same entries \<open>rs1\<close>, which are a prefix of the
  final results. So a lookup whose search step returned a list always returns.
\<close>

theorem candidate_failure_isolated:
  "(\<exists>rs s1. process_companies w self cs acc s = (Inr rs, s1) \<and> prefix acc rs) \<and>
   (process_companies w self before acc s = (Inr rs1, s1) \<and>
    process_company w self c s1 = (Inl x, s2) \<longrightarrow>
      process_companies w self (before @ c # rest) acc s =
        process_companies w self rest rs1 (s2\<lparr>printed := printed s2 @ [ErrorProcessingCompany x]\<rparr>) \<and>
      (\<exists>rs s3. process_companies w self (before @ c # rest) acc s = (Inr rs, s3) \<and> prefix rs1 rs)) \<and>
   (jurisdiction_code hint = Inr code \<and>
    search_companies w self name code s = (Inr (JArr found), s1) \<longrightarrow>
      (\<exists>r s3. find_company_controllers w self name hint s = (Inr r, s3)))"
proof (intro conjI)
  obtain rs s1 where loop: "process_companies w self cs acc s = (Inr rs, s1)"
    using process_companies_returns by blast
  with process_companies_prefix [OF loop]
  show "\<exists>rs s1. process_companies w self cs acc s = (Inr rs, s1) \<and> prefix acc rs"
    by blast
next
  show "process_companies w self before acc s = (Inr rs1, s1) \<and>
    process_company w self c s1 = (Inl x, s2) \<longrightarrow>
      process_companies w self (before @ c # rest) acc s =
        process_companies w self rest rs1 (s2\<lparr>printed := printed s2 @ [ErrorProcessingCompany x]\<rparr>) \<and>
      (\<exists>rs s3. process_companies w self (before @ c # rest) acc s = (Inr rs, s3) \<and> prefix rs1 rs)"
  proof (rule impI)
    assume hyp: "process_companies w self before acc s = (Inr rs1, s1) \<and>
                 process_company w self c s1 = (Inl x, s2)"
    let ?s = "s2\<lparr>printed := printed s2 @ [ErrorProcessingCompany x]\<rparr>"
    have eq: "process_companies w self (before @ c # rest) acc s = process_companies w self rest rs1 ?s"
      using hyp by (simp add: process_companies_append is_Exception_all)
    obtain rs s3 where loop: "process_companies w self rest rs1 ?s = (Inr rs, s3)"
      using process_companies_returns by blast
    from process_companies_prefix [OF loop] eq loop
    show "process_companies w self (before @ c # rest) acc s = process_companies w self rest rs1 ?s \<and>
          (\<exists>rs s3. process_companies w self (before @ c # rest) acc s = (Inr rs, s3) \<and> prefix rs1 rs)"
      by simp
  qed
next
  show "jurisdiction_code hint = Inr code \<and>
    search_companies w self name code s = (Inr (JArr found), s1) \<longrightarrow>
      (\<exists>r s3. find_company_controllers w self name hint s = (Inr r, s3))"
  proof (rule impI)
    assume hyp: "jurisdiction_code hint = Inr code \<and>
                 search_companies w self name code s = (Inr (JArr found), s1)"
    obtain rs s3 where loop: "process_companies w self (take 3 found) [] s1 = (Inr rs, s3)"
      using process_companies_returns by blast
    with hyp show "\<exists>r s3. find_company_controllers w self name hint s = (Inr r, s3)"
      by (cases "found = []") (simp_all add: find_company_controllers_def)
  qed
qed

theorem candidate_failure_isolated_witness:
  "\<not> isl (fst (process_companies registry_mixed agent0 [hit ''A'' ''us_ca'' ''1''] [] io0)) \<and>
   fst (process_company registry_mixed agent0 JNull
          (snd (process_companies registry_mixed agent0 [hit ''A'' ''us_ca'' ''1''] [] io0))) = Inl AttributeError \<and>
   fst (process_companies registry_mixed agent0
          ([hit ''A'' ''us_ca'' ''1''] @ JNull # [hit ''B'' ''us_il'' ''2'']) [] io0) =
     fst (process_companies registry_mixed agent0 [hit ''B'' ''us_il'' ''2'']
            (projr (fst (process_companies registry_mixed agent0 [hit ''A'' ''us_ca'' ''1''] [] io0)))
            (snd (process_company registry_mixed agent0 JNull
                    (snd (process_companies registry_mixed agent0 [hit ''A'' ''us_ca'' ''1''] [] io0)))
               \<lparr>printed := [ErrorProcessingCompany AttributeError]\<rparr>)) \<and>
   map company_name (projr (fst (process_companies registry_mixed agent0
          ([hit ''A'' ''us_ca'' ''1''] @ JNull # [hit ''B'' ''us_il'' ''2'']) [] io0))) = [JStr ''A'', JStr ''B''] \<and>
   jurisdiction_code JNull = Inr None \<and>
   fst (search_companies registry_mixed agent0 (JStr ''ACME'') None io0) =
     Inr (JArr [hit ''A'' ''us_ca'' ''1'', JNull, incomplete, hit ''B'' ''us_il'' ''2'']) \<and>
   \<not> isl (fst (find_company_controllers registry_mixed agent0 (JStr ''ACME'') JNull io0))"
proof -
  let ?w = registry_mixed
  let ?before = "[hit ''A'' ''us_ca'' ''1'']"
  let ?rest = "[hit ''B'' ''us_il'' ''2'']"
  let ?p1 = "process_companies ?w agent0 ?before [] io0"
  let ?p2 = "process_company ?w agent0 JNull (snd ?p1)"
  have ret: "\<not> isl (fst ?p1)"
    by code_simp
  have raised: "fst ?p2 = Inl AttributeError"
    by code_simp
  have pr: "printed (snd ?p2) = []"
    by code_simp
  have names: "map company_name (projr (fst (process_companies ?w agent0 (?before @ JNull # ?rest) [] io0)))
                 = [JStr ''A'', JStr ''B'']"
    by code_simp
  from ret have p1: "?p1 = (Inr (projr (fst ?p1)), snd ?p1)"
    by (cases ?p1, cases "fst ?p1") auto
  from raised have p2: "?p2 = (Inl AttributeError, snd ?p2)"
    by (cases ?p2) simp
  from candidate_failure_isolated
         [of ?w agent0 "[]" "[]" io0 ?before "projr (fst ?p1)" "snd ?p1" JNull AttributeError "snd ?p2" ?rest]
       p1 p2
  have "process_companies ?w agent0 (?before @ JNull # ?rest) [] io0 =
          process_companies ?w agent0 ?rest (projr (fst ?p1))
            (snd ?p2\<lparr>printed := printed (snd ?p2) @ [ErrorProcessingCompany AttributeError]\<rparr>)"
    by blast
  then have loop: "fst (process_companies ?w agent0 (?before @ JNull # ?rest) [] io0) =
          fst (process_companies ?w agent0 ?rest (projr (fst ?p1))
                 (snd ?p2\<lparr>printed := [ErrorProcessingCompany AttributeError]\<rparr>))"
    using pr by simp
  let ?search = "search_companies ?w agent0 (JStr ''ACME'') None io0"
  let ?found = "[hit ''A'' ''us_ca'' ''1'', JNull, incomplete, hit ''B'' ''us_il'' ''2'']"
  have code: "jurisdiction_code JNull = Inr None"
    by code_simp
  have found: "fst ?search = Inr (JArr ?found)"
    by code_simp
  then have search: "?search = (Inr (JArr ?found), snd ?search)"
    by (cases ?search) simp
  from candidate_failure_isolated
         [of ?w agent0 "[]" "[]" io0 "[]" "[]" "snd ?search" JNull AttributeError io0 "[]" JNull None "JStr ''ACME''" ?found]
       code search
  have "\<exists>r s3. find_company_controllers ?w agent0 (JStr ''ACME'') JNull io0 = (Inr r, s3)"
    by blast
  then have "\<not> isl (fst (find_company_controllers ?w agent0 (JStr ''ACME'') JNull io0))"
    by auto
  with loop ret raised names code found show ?thesis
    by simp
qed

section \<open>A failed officers request\<close>




section \<open>The request operation\<close>




section \<open>The jurisdiction hint\<close>

text \<open>
  Claim C5. The hint is looked up in the table in lower case: \<^verbatim>\<open>CA\<close>, \<^verbatim>\<open>ca\<close> and
  \<^verbatim>\<open>California\<close> resolve to \<^verbatim>\<open>us_ca\<close>, and two hints that differ only in case resolve
  alike. A hint that is not in the table, such as \<^verbatim>\<open>unknown\<close>, the hint \<^verbatim>\<open>None\<close> and the
  empty hint resolve to no code, which is a value and not an exception; the search is
  then made without the parameter \<^verbatim>\<open>jurisdiction_code\<close>, and the lookup is the one made
  with no hint at all.
\<close>

theorem jurisdiction_hint_resolution:
  "jurisdiction_code (JStr ''CA'') = Inr (Some ''us_ca'') \<and>
   jurisdiction_code (JStr ''ca'') = Inr (Some ''us_ca'') \<and>
   jurisdiction_code (JStr ''California'') = Inr (Some ''us_ca'') \<and>
   jurisdiction_code (JStr ''unknown'') = Inr None \<and>
   jurisdiction_code JNull = Inr None \<and>
   jurisdiction_code (JStr []) = Inr None \<and>
   (map lower_char h = map lower_char h' \<longrightarrow> jurisdiction_code (JStr h) = jurisdiction_code (JStr h')) \<and>
   (map_of state_codes (map lower_char h) = None \<longrightarrow> jurisdiction_code (JStr h) = Inr None) \<and>
   map_of (search_params q None) ''jurisdiction_code'' = None \<and>
   (jurisdiction_code hint = Inr None \<longrightarrow>
      find_company_controllers w self name hint s = find_company_controllers w self name JNull s)"
proof (intro conjI)
  show "jurisdiction_code (JStr ''CA'') = Inr (Some ''us_ca'')" by code_simp
  show "jurisdiction_code (JStr ''ca'') = Inr (Some ''us_ca'')" by code_simp
  show "jurisdiction_code (JStr ''California'') = Inr (Some ''us_ca'')" by code_simp
  show "jurisdiction_code (JStr ''unknown'') = Inr None" by code_simp
  show "jurisdiction_code JNull = Inr None" by (simp add: jurisdiction_code_def)
  show "jurisdiction_code (JStr []) = Inr None" by (simp add: jurisdiction_code_def)
  show "map lower_char h = map lower_char h' \<longrightarrow> jurisdiction_code (JStr h) = jurisdiction_code (JStr h')"
    by (simp add: jurisdiction_code_str)
  show "map_of state_codes (map lower_char h) = None \<longrightarrow> jurisdiction_code (JStr h) = Inr None"
    by (simp add: jurisdiction_code_str)
  show "map_of (search_params q None) ''jurisdiction_code'' = None"
    by (simp add: search_params_def)
  show "jurisdiction_code hint = Inr None \<longrightarrow>
      find_company_controllers w self name hint s = find_company_controllers w self name JNull s"
    by (simp add: find_company_controllers_unresolved)
qed

theorem jurisdiction_hint_resolution_witness:
  "map lower_char ''ILLINOIS'' = map lower_char ''Illinois'' \<and>
   jurisdiction_code (JStr ''ILLINOIS'') = jurisdiction_code (JStr ''Illinois'') \<and>
   map_of state_codes (map lower_char ''Texas'') = None \<and>
   jurisdiction_code (JStr ''Texas'') = Inr None \<and>
   find_company_controllers registry_five agent0 (JStr ''ACME'') (JStr ''Texas'') io0 =
     find_company_controllers registry_five agent0 (JStr ''ACME'') JNull io0"
proof -
  note inst = jurisdiction_hint_resolution
  have a: "map lower_char ''ILLINOIS'' = map lower_char ''Illinois''"
    by code_simp
  have b: "map_of state_codes (map lower_char ''Texas'') = None"
    by code_simp
  from inst [of "''ILLINOIS''" "''Illinois''"] a
  have c: "jurisdiction_code (JStr ''ILLINOIS'') = jurisdiction_code (JStr ''Illinois'')"
    by blast
  from inst [of "''Texas''"] b
  have d: "jurisdiction_code (JStr ''Texas'') = Inr None"
    by blast
  from inst [of _ _ _ "JStr ''Texas''" registry_five agent0 "JStr ''ACME''" io0] d
  have "find_company_controllers registry_five agent0 (JStr ''ACME'') (JStr ''Texas'') io0 =
        find_company_controllers registry_five agent0 (JStr ''ACME'') JNull io0"
    by blast
  with a b c d show ?thesis by simp
qed

text \<open>
  Claim C10. A hint whose lower-case form is not a key of the table resolves to no code,
  also when it is itself a code of the registry such as \<^verbatim>\<open>us_ca\<close>. The lookup is then
  the lookup with no hint: its first request is the search, and the parameters of that
  request carry the name under \<^verbatim>\<open>q\<close> and no \<^verbatim>\<open>jurisdiction_code\<close>.
\<close>

theorem unknown_hint_not_filtered:
  assumes "map_of state_codes (map lower_char h) = None"
  shows "jurisdiction_code (JStr h) = Inr None \<and>
         find_company_controllers w self name (JStr h) s = find_company_controllers w self name JNull s \<and>
         (\<exists>ps. prefix (sent s @ [(base_url self @ ''/'' @ ''companies/search'', ps)])
                       (sent (snd (find_company_controllers w self name (JStr h) s))) \<and>
               map_of ps ''jurisdiction_code'' = None \<and>
               map_of ps ''q'' = Some name)"
proof -
  have code: "jurisdiction_code (JStr h) = Inr None"
    using assms by (simp add: jurisdiction_code_str)
  let ?ps = "with_token self (search_params name None)"
  have "prefix (sent s @ [(base_url self @ ''/'' @ ''companies/search'', ?ps)])
               (sent (snd (find_company_controllers w self name (JStr h) s)))"
    using find_company_controllers_sent [OF code, of w self name s]
    by (simp only: search_companies_sent)
  moreover have "map_of ?ps ''jurisdiction_code'' = None" "map_of ?ps ''q'' = Some name"
    by (simp_all add: map_of_with_token search_params_def)
  ultimately show ?thesis
    using code find_company_controllers_unresolved [OF code] by blast
qed

theorem unknown_hint_not_filtered_witness:
  "map_of state_codes (map lower_char ''us_ca'') = None \<and>
   jurisdiction_code (JStr ''us_ca'') = Inr None \<and>
   find_company_controllers registry_five agent0 (JStr ''ACME'') (JStr ''us_ca'') io0 =
     find_company_controllers registry_five agent0 (JStr ''ACME'') JNull io0 \<and>
   hd (sent (snd (find_company_controllers registry_five agent0 (JStr ''ACME'') (JStr ''us_ca'') io0))) =
     (''https://api.opencorporates.com/v0.4/companies/search'', [(''q'', JStr ''ACME'')])"
proof -
  have a: "map_of state_codes (map lower_char ''us_ca'') = None"
    by code_simp
  have b: "hd (sent (snd (find_company_controllers registry_five agent0 (JStr ''ACME'') JNull io0))) =
             (''https://api.opencorporates.com/v0.4/companies/search'', [(''q'', JStr ''ACME'')])"
    by code_simp
  from unknown_hint_not_filtered [OF a, of registry_five agent0 "JStr ''ACME''" io0] a b
  show ?thesis by simp
qed

section \<open>The search endpoint\<close>

text \<open>
  Claim C9, as amended. \<^verbatim>\<open>POST /api/search\<close> answers 400 with the body
  \<^verbatim>\<open>{"error": "Company name is required"}\<close> when the body is an object whose
  \<^verbatim>\<open>company_name\<close> is absent or is not a true value (null, the empty string), in
  particular for the body \<^verbatim>\<open>{}\<close>, and it then makes no request. When \<^verbatim>\<open>company_name\<close> is
  a true value and \<^verbatim>\<open>find_company_controllers\<close> returns, the answer is 200 with the result
  serialized.
\<close>

theorem search_company_responses:
  "(py_get data ''company_name'' JNull = Inr name \<and> \<not> truthy name \<longrightarrow>
      search_company w self data s =
        (Inr (400, JObj [(''error'', JStr ''Company name is required'')]), s)) \<and>
   (map_of kvs ''company_name'' = None \<longrightarrow>
      search_company w self (JObj kvs) s =
        (Inr (400, JObj [(''error'', JStr ''Company name is required'')]), s)) \<and>
   search_company w self (JObj []) s =
     (Inr (400, JObj [(''error'', JStr ''Company name is required'')]), s) \<and>
   (truthy (dict_get kvs ''company_name'' JNull) \<and>
    find_company_controllers w self (dict_get kvs ''company_name'' JNull)
      (dict_get kvs ''jurisdiction'' JNull) s = (Inr r, s1) \<longrightarrow>
      search_company w self (JObj kvs) s = (Inr (200, jsonify r), s1))"
proof (intro conjI)
  show "py_get data ''company_name'' JNull = Inr name \<and> \<not> truthy name \<longrightarrow>
      search_company w self data s =
        (Inr (400, JObj [(''error'', JStr ''Company name is required'')]), s)"
    by (cases data) (simp_all add: search_company_def)
  show "map_of kvs ''company_name'' = None \<longrightarrow>
      search_company w self (JObj kvs) s =
        (Inr (400, JObj [(''error'', JStr ''Company name is required'')]), s)"
    by (simp add: search_company_def dict_get_def)
  show "search_company w self (JObj []) s =
     (Inr (400, JObj [(''error'', JStr ''Company name is required'')]), s)"
    by (simp add: search_company_def dict_get_def)
  show "truthy (dict_get kvs ''company_name'' JNull) \<and>
    find_company_controllers w self (dict_get kvs ''company_name'' JNull)
      (dict_get kvs ''jurisdiction'' JNull) s = (Inr r, s1) \<longrightarrow>
      search_company w self (JObj kvs) s = (Inr (200, jsonify r), s1)"
    by (simp add: search_company_def)
qed

theorem search_company_responses_witness:
  "py_get (JObj [(''company_name'', JNull)]) ''company_name'' JNull = Inr JNull \<and> \<not> truthy JNull \<and>
   fst (search_company registry_five agent0 (JObj [(''company_name'', JNull)]) io0) =
     Inr (400, JObj [(''error'', JStr ''Company name is required'')]) \<and>
   map_of [(''jurisdiction'', JStr ''CA'')] ''company_name'' = None \<and>
   fst (search_company registry_five agent0 (JObj [(''jurisdiction'', JStr ''CA'')]) io0) =
     Inr (400, JObj [(''error'', JStr ''Company name is required'')]) \<and>
   truthy (dict_get [(''company_name'', JStr ''X'')] ''company_name'' JNull) \<and>
   \<not> isl (fst (find_company_controllers registry_empty agent0 (JStr ''X'') JNull io0)) \<and>
   fst (search_company registry_empty agent0 (JObj [(''company_name'', JStr ''X'')]) io0) =
     Inr (200, JObj [(''status'', JStr ''not_found''),
                     (''message'', JStr (''No companies found matching '' @ [CHR 0x27] @ ''X'' @ [CHR 0x27])),
                     (''results'', JArr [])])"
proof -
  note inst = search_company_responses
  let ?kvs = "[(''company_name'', JStr ''X'')]"
  let ?call = "find_company_controllers registry_empty agent0 (dict_get ?kvs ''company_name'' JNull)
                 (dict_get ?kvs ''jurisdiction'' JNull) io0"
  have a: "py_get (JObj [(''company_name'', JNull)]) ''company_name'' JNull = Inr JNull \<and> \<not> truthy JNull"
    by code_simp
  have b: "map_of [(''jurisdiction'', JStr ''CA'')] ''company_name'' = (None :: json option)"
    by code_simp
  have c: "truthy (dict_get ?kvs ''company_name'' JNull)"
    by code_simp
  have ret: "\<not> isl (fst ?call)"
    by code_simp
  have body: "jsonify (projr (fst ?call)) =
                JObj [(''status'', JStr ''not_found''),
                      (''message'', JStr (''No companies found matching '' @ [CHR 0x27] @ ''X'' @ [CHR 0x27])),
                      (''results'', JArr [])]"
    by code_simp
  have same: "find_company_controllers registry_empty agent0 (JStr ''X'') JNull io0 = ?call"
    by (simp add: dict_get_def)
  from ret obtain r s1 where call: "?call = (Inr r, s1)"
    by (cases ?call, cases "fst ?call") auto
  from inst [of "JObj [(''company_name'', JNull)]" JNull registry_five agent0 io0] a
  have "fst (search_company registry_five agent0 (JObj [(''company_name'', JNull)]) io0) =
          Inr (400, JObj [(''error'', JStr ''Company name is required'')])"
    by simp
  moreover from inst [of _ _ registry_five agent0 io0 "[(''jurisdiction'', JStr ''CA'')]"] b
  have "fst (search_company registry_five agent0 (JObj [(''jurisdiction'', JStr ''CA'')]) io0) =
          Inr (400, JObj [(''error'', JStr ''Company name is required'')])"
    by simp
  moreover from inst [of _ _ registry_empty agent0 io0 ?kvs r s1] c call
  have "search_company registry_empty agent0 (JObj ?kvs) io0 = (Inr (200, jsonify r), s1)"
    by blast
  ultimately show ?thesis
    using a b c ret body call same by simp
qed

text \<open>
  The claim as stated fails for a body that has a \<^verbatim>\<open>company_name\<close>, the empty string: the
  answer is 400, not 200.
\<close>

theorem search_company_empty_name_counterexample:
  "map_of [(''company_name'', JStr [])] ''company_name'' = Some (JStr []) \<and>
   search_company registry_five agent0 (JObj [(''company_name'', JStr [])]) io0 =
     (Inr (400, JObj [(''error'', JStr ''Company name is required'')]), io0)"
  by code_simp

end
